theory Spec2Isabelle
  imports Complex_Main
begin

section \<open>Values exchanged with the outside world\<close>

text \<open>
  The exporter (\<^verbatim>\<open>custom_exporter.py\<close>) reads JSON documents over HTTP and writes
  numbers into Prometheus metrics. A decoded JSON document is a Python value: \<^verbatim>\<open>None\<close>,
  a \<^verbatim>\<open>bool\<close>, an \<^verbatim>\<open>int\<close>, a \<^verbatim>\<open>float\<close>, a \<^verbatim>\<open>str\<close>, a \<^verbatim>\<open>list\<close> or a \<^verbatim>\<open>dict\<close> with
  string keys. A \<^verbatim>\<open>dict\<close> is an association list whose keys are distinct as far as lookup
  is concerned (the first binding of a key is the one found).

  Python floats are idealised as real numbers: rounding, infinities and NaN are not modelled.
  Wall-clock time (\<^verbatim>\<open>time.time()\<close>) and instants (\<^verbatim>\<open>datetime\<close>) are real numbers of
  seconds since 1970-01-01T00:00:00 UTC.
\<close>

datatype json =
    JNull
  | JBool bool
  | JInt int
  | JFloat real
  | JStr string
  | JList "json list"
  | JObj "(string \<times> json) list"

text \<open>
  The exceptions that occur. \<open>RequestError\<close> stands for whatever \<^verbatim>\<open>session.get\<close> or
  \<^verbatim>\<open>r.json()\<close> raise (connection errors, timeouts, undecodable bodies), \<open>HTTPError\<close> for
  what \<^verbatim>\<open>r.raise_for_status()\<close> raises. All of them are subclasses of \<^verbatim>\<open>Exception\<close>.
\<close>

datatype exn =
    RequestError string
  | HTTPError nat
  | TypeError
  | AttributeError
  | ValueError
  | KeyError
  | OverflowError

text \<open>
  What \<^verbatim>\<open>datetime.fromisoformat\<close> returns: the wall-clock reading of the parsed fields
  (seconds since 1970-01-01T00:00:00 on that same wall clock) and the UTC offset in seconds,
  \<open>None\<close> for a naive datetime.
\<close>

record pydatetime =
  wall :: real
  utcoffset :: "real option"

text \<open>
  An HTTP response as the code uses it: the status code, and what \<^verbatim>\<open>r.json()\<close> gives.
  A reply of the network is the time the call took together with either the exception
  raised by \<^verbatim>\<open>session.get\<close> or the response.
\<close>

record response =
  status_code :: nat
  json_body :: "exn + json"

record reply =
  elapsed :: real
  outcome :: "exn + response"

text \<open>
  The environment collects what is outside the source file and is taken as a parameter:
  the network (a reply for each URL and request time), and three library functions,
  \<^verbatim>\<open>datetime.fromisoformat\<close>, \<^verbatim>\<open>float\<close> applied to a string and \<^verbatim>\<open>str\<close> applied to a
  value that is not a string.
\<close>

record env =
  http :: "string \<Rightarrow> real \<Rightarrow> reply"
  fromisoformat :: "string \<Rightarrow> exn + pydatetime"
  float_of_str :: "string \<Rightarrow> real option"
  str_of :: "json \<Rightarrow> string"

section \<open>Python operations on decoded JSON\<close>

text \<open>Truth value of a Python object, as \<^verbatim>\<open>if data\<close> and \<^verbatim>\<open>not data\<close> test it.\<close>

fun truthy :: "json \<Rightarrow> bool" where
  "truthy JNull = False"
| "truthy (JBool b) = b"
| "truthy (JInt n) = (n \<noteq> 0)"
| "truthy (JFloat x) = (x \<noteq> 0)"
| "truthy (JStr s) = (s \<noteq> [])"
| "truthy (JList xs) = (xs \<noteq> [])"
| "truthy (JObj kvs) = (kvs \<noteq> [])"

text \<open>\<^verbatim>\<open>sub in s\<close> on two strings: substring test.\<close>

fun str_contains :: "string \<Rightarrow> string \<Rightarrow> bool" where
  "str_contains sub [] = (sub = [])"
| "str_contains sub (c # cs) = (take (length sub) (c # cs) = sub \<or> str_contains sub cs)"

text \<open>
  \<^verbatim>\<open>k in d\<close> for a string \<open>k\<close>: key membership on a dict, element membership on a list,
  substring test on a string, \<^verbatim>\<open>TypeError\<close> on \<^verbatim>\<open>None\<close>, booleans and numbers.
\<close>

fun py_in :: "string \<Rightarrow> json \<Rightarrow> exn + bool" where
  "py_in k (JObj kvs) = Inr (k \<in> set (map fst kvs))"
| "py_in k (JList xs) = Inr (JStr k \<in> set xs)"
| "py_in k (JStr s) = Inr (str_contains k s)"
| "py_in k JNull = Inl TypeError"
| "py_in k (JBool b) = Inl TypeError"
| "py_in k (JInt n) = Inl TypeError"
| "py_in k (JFloat x) = Inl TypeError"

text \<open>
  \<^verbatim>\<open>d[k]\<close> for a string \<open>k\<close>: lookup on a dict (\<^verbatim>\<open>KeyError\<close> when absent),
  \<^verbatim>\<open>TypeError\<close> on everything else (lists and strings want integer indices).
\<close>

fun py_getitem :: "json \<Rightarrow> string \<Rightarrow> exn + json" where
  "py_getitem (JObj kvs) k = (case map_of kvs k of None \<Rightarrow> Inl KeyError | Some v \<Rightarrow> Inr v)"
| "py_getitem (JList xs) k = Inl TypeError"
| "py_getitem (JStr s) k = Inl TypeError"
| "py_getitem JNull k = Inl TypeError"
| "py_getitem (JBool b) k = Inl TypeError"
| "py_getitem (JInt n) k = Inl TypeError"
| "py_getitem (JFloat x) k = Inl TypeError"

text \<open>
  \<^verbatim>\<open>d.get(k)\<close>: the value or \<^verbatim>\<open>None\<close> on a dict; no other JSON value has a method
  \<^verbatim>\<open>get\<close>, so the attribute lookup raises \<^verbatim>\<open>AttributeError\<close>.
\<close>

fun py_get :: "json \<Rightarrow> string \<Rightarrow> exn + json" where
  "py_get (JObj kvs) k = (case map_of kvs k of None \<Rightarrow> Inr JNull | Some v \<Rightarrow> Inr v)"
| "py_get (JList xs) k = Inl AttributeError"
| "py_get (JStr s) k = Inl AttributeError"
| "py_get JNull k = Inl AttributeError"
| "py_get (JBool b) k = Inl AttributeError"
| "py_get (JInt n) k = Inl AttributeError"
| "py_get (JFloat x) k = Inl AttributeError"

text \<open>
  \<^verbatim>\<open>float(v)\<close>. \<^verbatim>\<open>None\<close>, lists and dicts raise \<^verbatim>\<open>TypeError\<close>; a string is parsed
  (\<^verbatim>\<open>ValueError\<close> when it is not a number); an integer too large for a double raises
  \<^verbatim>\<open>OverflowError\<close>.
\<close>

definition FLOAT_INT_LIMIT :: int where
  "FLOAT_INT_LIMIT = 2 ^ 1024 - 2 ^ 970"

fun py_float :: "env \<Rightarrow> json \<Rightarrow> exn + real" where
  "py_float E JNull = Inl TypeError"
| "py_float E (JBool b) = Inr (if b then 1 else 0)"
| "py_float E (JInt n) = (if \<bar>n\<bar> < FLOAT_INT_LIMIT then Inr (real_of_int n) else Inl OverflowError)"
| "py_float E (JFloat x) = Inr x"
| "py_float E (JStr s) = (case float_of_str E s of None \<Rightarrow> Inl ValueError | Some x \<Rightarrow> Inr x)"
| "py_float E (JList xs) = Inl TypeError"
| "py_float E (JObj kvs) = Inl TypeError"

section \<open>The temporal selector\<close>

text \<open>\<^verbatim>\<open>ts.replace("Z", "+00:00")\<close>: every occurrence of the character is replaced.\<close>

definition replace_Z :: "string \<Rightarrow> string" where
  "replace_Z s = concat (map (\<lambda>c. if c = CHR ''Z'' then ''+00:00'' else [c]) s)"

text \<open>
  The range of \<^verbatim>\<open>datetime\<close>: 0001-01-01T00:00:00 to 9999-12-31T23:59:59.999999.
  \<^verbatim>\<open>dt.astimezone(timezone.utc)\<close> subtracts the offset and raises \<^verbatim>\<open>OverflowError\<close>
  when the result leaves that range.
\<close>

definition DATETIME_MIN :: real where
  "DATETIME_MIN = - 62135596800"

definition DATETIME_MAX :: real where
  "DATETIME_MAX = 253402300799.999999"

definition astimezone_utc :: "pydatetime \<Rightarrow> real \<Rightarrow> exn + real" where
  "astimezone_utc dt off =
     (let u = wall dt - off
      in if DATETIME_MIN \<le> u \<and> u \<le> DATETIME_MAX then Inr u else Inl OverflowError)"

text \<open>
  The body of the \<^verbatim>\<open>try\<close> in \<^verbatim>\<open>_parse_iso_ts\<close>. A value that is not a string has no
  method \<^verbatim>\<open>replace\<close>. A naive datetime is taken as UTC: the instant is the wall-clock
  reading itself.
\<close>

definition parse_iso_ts_try :: "env \<Rightarrow> json \<Rightarrow> exn + real" where
  "parse_iso_ts_try E ts =
     (case ts of
        JStr s \<Rightarrow>
          (case fromisoformat E (replace_Z s) of
             Inl e \<Rightarrow> Inl e
           | Inr dt \<Rightarrow>
               (case utcoffset dt of
                  None \<Rightarrow> Inr (wall dt)
                | Some off \<Rightarrow> astimezone_utc dt off))
      | _ \<Rightarrow> Inl AttributeError)"

text \<open>\<^verbatim>\<open>_parse_iso_ts\<close>: any exception of the body becomes \<^verbatim>\<open>None\<close>.\<close>

definition parse_iso_ts :: "env \<Rightarrow> json \<Rightarrow> real option" where
  "parse_iso_ts E ts = (case parse_iso_ts_try E ts of Inl e \<Rightarrow> None | Inr dt \<Rightarrow> Some dt)"

text \<open>
  The loop of \<^verbatim>\<open>_last_past_value\<close>, \<^verbatim>\<open>for i in range(len(times) - 1, -1, -1)\<close>:
  \<open>scan_back \<dots> (Suc i)\<close> is the iteration at index \<open>i\<close> followed by the rest of the loop,
  \<open>scan_back \<dots> 0\<close> is the \<^verbatim>\<open>return None\<close> after the loop. An unparsable timestamp
  (\<^verbatim>\<open>continue\<close>), a future timestamp and a \<^verbatim>\<open>None\<close> value go on to the next earlier
  index; a value that is not \<^verbatim>\<open>None\<close> ends the loop, with \<^verbatim>\<open>float(v)\<close> or, when that
  raises, with \<^verbatim>\<open>None\<close>.
\<close>

fun scan_back :: "env \<Rightarrow> real \<Rightarrow> json list \<Rightarrow> json list \<Rightarrow> nat \<Rightarrow> real option" where
  "scan_back E now ts vs 0 = None"
| "scan_back E now ts vs (Suc i) =
     (case parse_iso_ts E (ts ! i) of
        None \<Rightarrow> scan_back E now ts vs i
      | Some dt \<Rightarrow>
          if dt \<le> now then
            (let v = vs ! i
             in if v \<noteq> JNull then
                  (case py_float E v of Inr x \<Rightarrow> Some x | Inl e \<Rightarrow> None)
                else scan_back E now ts vs i)
          else scan_back E now ts vs i)"

text \<open>
  \<^verbatim>\<open>_last_past_value(hourly, key)\<close>, with the current time (\<^verbatim>\<open>datetime.now(timezone.utc)\<close>)
  as the argument \<open>now\<close>. The result is \<open>Inl\<close> when the call raises (\<^verbatim>\<open>hourly\<close> is not a
  dict), \<open>Inr None\<close> for \<^verbatim>\<open>None\<close> and \<open>Inr (Some x)\<close> for a float.
\<close>

definition last_past_value :: "env \<Rightarrow> real \<Rightarrow> json \<Rightarrow> string \<Rightarrow> exn + real option" where
  "last_past_value E now hourly key =
     (case py_get hourly ''time'' of
        Inl e \<Rightarrow> Inl e
      | Inr tms \<Rightarrow>
          (case py_get hourly key of
             Inl e \<Rightarrow> Inl e
           | Inr vals \<Rightarrow>
               (case tms of
                  JList ts \<Rightarrow>
                    (case vals of
                       JList vs \<Rightarrow>
                         if length ts \<noteq> length vs \<or> ts = [] then Inr None
                         else Inr (scan_back E now ts vs (length ts))
                     | _ \<Rightarrow> Inr None)
                | _ \<Rightarrow> Inr None)))"

section \<open>The metric store, the clock and the trace of effects\<close>

text \<open>
  A metric child is identified by the metric's name and its label values (none for an
  unlabelled metric). The state of the process is the wall clock, the values of the gauges
  (\<open>None\<close> for a labelled child that does not exist yet), the counters, the observations
  of the summaries, the global \<^verbatim>\<open>LAST_SO_POLL\<close>, and the trace of what the process did to
  the outside world, newest event first: HTTP requests with the time they were issued at,
  log lines and sleeps. The time stamp that \<^verbatim>\<open>log_warn\<close> prints is not modelled; a warning
  is the text before the exception and the exception.
\<close>

type_synonym metric_key = "string \<times> string list"

datatype event =
    HttpGet string real
  | LogInfo string
  | LogWarn string exn
  | Sleep real

record world =
  clock :: real
  gauges :: "metric_key \<Rightarrow> real option"
  counters :: "metric_key \<Rightarrow> nat"
  summaries :: "metric_key \<Rightarrow> real list"
  LAST_SO_POLL :: real
  events :: "event list"

text \<open>
  A statement runs on the state and either completes (\<open>None\<close>) or raises (\<open>Some e\<close>);
  the state it leaves is returned in both cases, since what was mutated before an
  exception stays mutated.
\<close>

type_synonym stmt = "world \<Rightarrow> exn option \<times> world"

definition seq :: "stmt \<Rightarrow> stmt \<Rightarrow> stmt" where
  "seq s1 s2 w = (case s1 w of (Some e, w1) \<Rightarrow> (Some e, w1) | (None, w1) \<Rightarrow> s2 w1)"

definition try_except :: "stmt \<Rightarrow> (exn \<Rightarrow> stmt) \<Rightarrow> stmt" where
  "try_except body handler w =
     (case body w of (Some e, w1) \<Rightarrow> handler e w1 | (None, w1) \<Rightarrow> (None, w1))"

definition gauge_set :: "metric_key \<Rightarrow> real \<Rightarrow> world \<Rightarrow> world" where
  "gauge_set k x w = w\<lparr>gauges := (gauges w)(k \<mapsto> x)\<rparr>"

text \<open>\<^verbatim>\<open>gauge.labels(...)\<close> creates the child, with value 0, when it does not exist.\<close>

definition gauge_labels :: "metric_key \<Rightarrow> world \<Rightarrow> world" where
  "gauge_labels k w =
     (case gauges w k of None \<Rightarrow> w\<lparr>gauges := (gauges w)(k \<mapsto> 0)\<rparr> | Some x \<Rightarrow> w)"

definition counter_inc :: "metric_key \<Rightarrow> world \<Rightarrow> world" where
  "counter_inc k w = w\<lparr>counters := (counters w)(k := Suc (counters w k))\<rparr>"

definition summary_observe :: "metric_key \<Rightarrow> real \<Rightarrow> world \<Rightarrow> world" where
  "summary_observe k x w = w\<lparr>summaries := (summaries w)(k := x # summaries w k)\<rparr>"

definition log_info :: "string \<Rightarrow> world \<Rightarrow> world" where
  "log_info msg w = w\<lparr>events := LogInfo msg # events w\<rparr>"

definition log_warn :: "string \<Rightarrow> exn \<Rightarrow> world \<Rightarrow> world" where
  "log_warn msg e w = w\<lparr>events := LogWarn msg e # events w\<rparr>"

definition sleep :: "real \<Rightarrow> world \<Rightarrow> world" where
  "sleep d w = w\<lparr>clock := clock w + d, events := Sleep d # events w\<rparr>"

subsection \<open>Settings and metrics\<close>

definition SCRAPE_INTERVAL :: real where
  "SCRAPE_INTERVAL = 20"

definition SO_MIN_PERIOD :: real where
  "SO_MIN_PERIOD = 600"

definition weather_temperature_c :: metric_key where
  "weather_temperature_c = (''weather_temperature_c'', [])"

definition weather_wind_speed_ms :: metric_key where
  "weather_wind_speed_ms = (''weather_wind_speed_ms'', [])"

definition weather_humidity_percent :: metric_key where
  "weather_humidity_percent = (''weather_humidity_percent'', [])"

definition air_pm10_ugm3 :: metric_key where
  "air_pm10_ugm3 = (''air_pm10_ugm3'', [])"

definition air_pm25_ugm3 :: metric_key where
  "air_pm25_ugm3 = (''air_pm25_ugm3'', [])"

definition air_us_aqi :: metric_key where
  "air_us_aqi = (''air_us_aqi'', [])"

definition fx_usd_kzt :: metric_key where
  "fx_usd_kzt = (''fx_usd_kzt'', [])"

definition fx_eur_kzt :: metric_key where
  "fx_eur_kzt = (''fx_eur_kzt'', [])"

definition crypto_btc_usd :: metric_key where
  "crypto_btc_usd = (''crypto_btc_usd'', [])"

definition crypto_eth_usd :: metric_key where
  "crypto_eth_usd = (''crypto_eth_usd'', [])"

definition so_tag_count :: "string \<Rightarrow> metric_key" where
  "so_tag_count tag = (''so_tag_count'', [tag])"

definition api_success_total :: "string \<Rightarrow> metric_key" where
  "api_success_total api = (''api_success_total'', [api])"

definition api_fail_total :: "string \<Rightarrow> metric_key" where
  "api_fail_total api = (''api_fail_total'', [api])"

definition api_latency_seconds :: "string \<Rightarrow> metric_key" where
  "api_latency_seconds api = (''api_latency_seconds'', [api])"

definition api_last_scrape_timestamp_seconds :: "string \<Rightarrow> metric_key" where
  "api_last_scrape_timestamp_seconds api = (''api_last_scrape_timestamp_seconds'', [api])"

section \<open>The fetcher\<close>

text \<open>
  The three calls \<^verbatim>\<open>r = session.get(url, timeout=10)\<close>, \<^verbatim>\<open>r.raise_for_status()\<close>,
  \<^verbatim>\<open>data = r.json()\<close>. The request is issued at the current clock and recorded in the
  trace; the clock advances by the time the network took. \<^verbatim>\<open>raise_for_status\<close> raises for
  the status codes 400 to 599.
\<close>

definition http_get_json :: "env \<Rightarrow> string \<Rightarrow> world \<Rightarrow> (exn + json) \<times> world" where
  "http_get_json E url w =
     (let rp = http E url (clock w);
          w1 = w\<lparr>clock := clock w + elapsed rp, events := HttpGet url (clock w) # events w\<rparr>
      in case outcome rp of
           Inl e \<Rightarrow> (Inl e, w1)
         | Inr r \<Rightarrow>
             if 400 \<le> status_code r \<and> status_code r < 600
             then (Inl (HTTPError (status_code r)), w1)
             else (json_body r, w1))"

text \<open>
  The body of the \<^verbatim>\<open>try\<close> in \<^verbatim>\<open>timed_get\<close>: the three calls, the success counter, and
  the returned triple (payload, latency, no error). A payload \<^verbatim>\<open>None\<close> is \<open>JNull\<close>.
\<close>

definition timed_get_try ::
  "env \<Rightarrow> string \<Rightarrow> string \<Rightarrow> real \<Rightarrow> world \<Rightarrow> (exn + json \<times> real \<times> exn option) \<times> world" where
  "timed_get_try E api_name url start w =
     (case http_get_json E url w of
        (Inl e, w1) \<Rightarrow> (Inl e, w1)
      | (Inr data, w1) \<Rightarrow>
          (let w2 = counter_inc (api_success_total api_name) w1
           in (Inr (data, clock w2 - start, None), w2)))"

text \<open>
  \<^verbatim>\<open>timed_get\<close>: \<^verbatim>\<open>except Exception as e\<close> increments the failure counter and returns
  (\<^verbatim>\<open>None\<close>, latency, \<^verbatim>\<open>e\<close>). The result is \<open>Inl\<close> if the call raises.
\<close>

definition timed_get ::
  "env \<Rightarrow> string \<Rightarrow> string \<Rightarrow> world \<Rightarrow> (exn + json \<times> real \<times> exn option) \<times> world" where
  "timed_get E api_name url w =
     (let start = clock w
      in case timed_get_try E api_name url start w of
           (Inr r, w1) \<Rightarrow> (Inr r, w1)
         | (Inl e, w1) \<Rightarrow>
             (let w2 = counter_inc (api_fail_total api_name) w1
              in (Inr (JNull, clock w2 - start, Some e), w2)))"

text \<open>
  Every collector follows a call of \<^verbatim>\<open>timed_get\<close> by the same two statements,
  \<^verbatim>\<open>api_latency_seconds.labels(api).observe(latency)\<close> and
  \<^verbatim>\<open>api_last_scrape_timestamp_seconds.labels(api).set(time.time())\<close>; \<open>fetch\<close> is the
  three together and returns the payload and the error.
\<close>

definition fetch ::
  "env \<Rightarrow> string \<Rightarrow> string \<Rightarrow> world \<Rightarrow> (exn + json \<times> exn option) \<times> world" where
  "fetch E api url w =
     (case timed_get E api url w of
        (Inl e, w1) \<Rightarrow> (Inl e, w1)
      | (Inr (data, latency, err), w1) \<Rightarrow>
          (let w2 = summary_observe (api_latency_seconds api) latency w1;
               w3 = gauge_set (api_last_scrape_timestamp_seconds api) (clock w2) w2
           in (Inr (data, err), w3)))"

section \<open>The collectors\<close>

text \<open>
  Building blocks of the parsing code. \<open>publish E c k conv g\<close> is
  \<^verbatim>\<open>g.set(conv(float(c[k])))\<close>; \<open>if_in k c body\<close> is \<^verbatim>\<open>if k in c: body\<close>;
  \<open>if_in_not_none k c body\<close> is \<^verbatim>\<open>if k in c and c[k] is not None: body\<close>;
  \<open>if_truthy_in_not_none d k body\<close> is
  \<^verbatim>\<open>if d and k in d and d[k] is not None: body\<close>. The conditions are evaluated from the
  left and stop at the first false one.
\<close>

definition publish :: "env \<Rightarrow> json \<Rightarrow> string \<Rightarrow> (real \<Rightarrow> real) \<Rightarrow> metric_key \<Rightarrow> stmt" where
  "publish E c k conv g w =
     (case py_getitem c k of
        Inl e \<Rightarrow> (Some e, w)
      | Inr v \<Rightarrow>
          (case py_float E v of
             Inl e \<Rightarrow> (Some e, w)
           | Inr x \<Rightarrow> (None, gauge_set g (conv x) w)))"

definition if_in :: "string \<Rightarrow> json \<Rightarrow> stmt \<Rightarrow> stmt" where
  "if_in k c body w =
     (case py_in k c of
        Inl e \<Rightarrow> (Some e, w)
      | Inr b \<Rightarrow> if b then body w else (None, w))"

definition if_in_not_none :: "string \<Rightarrow> json \<Rightarrow> stmt \<Rightarrow> stmt" where
  "if_in_not_none k c body w =
     (case py_in k c of
        Inl e \<Rightarrow> (Some e, w)
      | Inr b \<Rightarrow>
          if b then
            (case py_getitem c k of
               Inl e \<Rightarrow> (Some e, w)
             | Inr v \<Rightarrow> if v \<noteq> JNull then body w else (None, w))
          else (None, w))"

definition if_truthy_in_not_none :: "json \<Rightarrow> string \<Rightarrow> stmt \<Rightarrow> stmt" where
  "if_truthy_in_not_none d k body w =
     (if truthy d then if_in_not_none k d body w else (None, w))"

subsection \<open>Weather\<close>

definition URL_WEATHER :: string where
  "URL_WEATHER = ''https://api.open-meteo.com/v1/forecast?latitude=51.1694&longitude=71.4491&current=temperature_2m,wind_speed_10m,relative_humidity_2m&timezone=auto''"

text \<open>The body of the \<^verbatim>\<open>try\<close> of \<^verbatim>\<open>poll_openmeteo_weather\<close>.\<close>

definition weather_parse :: "env \<Rightarrow> json \<Rightarrow> stmt" where
  "weather_parse E c =
     seq (if_in ''temperature_2m'' c (publish E c ''temperature_2m'' (\<lambda>x. x) weather_temperature_c))
    (seq (if_in ''wind_speed_10m'' c (publish E c ''wind_speed_10m'' (\<lambda>x. x / 3.6) weather_wind_speed_ms))
         (if_in ''relative_humidity_2m'' c
            (publish E c ''relative_humidity_2m'' (\<lambda>x. x) weather_humidity_percent)))"

definition poll_openmeteo_weather :: "env \<Rightarrow> stmt" where
  "poll_openmeteo_weather E w =
     (case fetch E ''openmeteo_weather'' URL_WEATHER w of
        (Inl e, w1) \<Rightarrow> (Some e, w1)
      | (Inr (data, err), w1) \<Rightarrow>
          (case err of
             Some e \<Rightarrow> (None, log_warn ''openmeteo_weather: '' e w1)
           | None \<Rightarrow>
               if \<not> truthy data then (None, w1)
               else
                 (case py_in ''current'' data of
                    Inl e \<Rightarrow> (Some e, w1)
                  | Inr b \<Rightarrow>
                      if \<not> b then (None, w1)
                      else
                        (case py_getitem data ''current'' of
                           Inl e \<Rightarrow> (Some e, w1)
                         | Inr c \<Rightarrow>
                             try_except (weather_parse E c)
                               (\<lambda>e w. (None, log_warn ''openmeteo_weather: parse current failed: '' e w))
                               w1))))"

subsection \<open>Air quality\<close>

definition URL_AIR_CURRENT :: string where
  "URL_AIR_CURRENT = ''https://air-quality-api.open-meteo.com/v1/air-quality?latitude=51.1694&longitude=71.4491&current=pm10,pm2_5,us_aqi&timezone=auto''"

definition URL_AIR_HOURLY :: string where
  "URL_AIR_HOURLY = ''https://air-quality-api.open-meteo.com/v1/air-quality?latitude=51.1694&longitude=71.4491&hourly=pm10,pm2_5,us_aqi&timezone=auto''"

text \<open>The body of the first \<^verbatim>\<open>try\<close> of \<^verbatim>\<open>poll_openmeteo_air\<close>, up to its \<^verbatim>\<open>return\<close>.\<close>

definition air_parse_current :: "env \<Rightarrow> json \<Rightarrow> stmt" where
  "air_parse_current E c =
     seq (if_in_not_none ''pm10'' c (publish E c ''pm10'' (\<lambda>x. x) air_pm10_ugm3))
    (seq (if_in_not_none ''pm2_5'' c (publish E c ''pm2_5'' (\<lambda>x. x) air_pm25_ugm3))
         (if_in_not_none ''us_aqi'' c (publish E c ''us_aqi'' (\<lambda>x. x) air_us_aqi)))"

text \<open>\<^verbatim>\<open>if v is not None: g.set(v)\<close>.\<close>

definition set_if_some :: "metric_key \<Rightarrow> real option \<Rightarrow> world \<Rightarrow> world" where
  "set_if_some g v w = (case v of None \<Rightarrow> w | Some x \<Rightarrow> gauge_set g x w)"

text \<open>
  The body of the second \<^verbatim>\<open>try\<close>: the three calls of \<^verbatim>\<open>_last_past_value\<close>, each at
  the current clock, then the three conditional updates.
\<close>

definition air_parse_hourly :: "env \<Rightarrow> json \<Rightarrow> stmt" where
  "air_parse_hourly E h w =
     (case last_past_value E (clock w) h ''pm10'' of
        Inl e \<Rightarrow> (Some e, w)
      | Inr v_pm10 \<Rightarrow>
          (case last_past_value E (clock w) h ''pm2_5'' of
             Inl e \<Rightarrow> (Some e, w)
           | Inr v_pm25 \<Rightarrow>
               (case last_past_value E (clock w) h ''us_aqi'' of
                  Inl e \<Rightarrow> (Some e, w)
                | Inr v_aqi \<Rightarrow>
                    (None, set_if_some air_us_aqi v_aqi
                             (set_if_some air_pm25_ugm3 v_pm25
                                (set_if_some air_pm10_ugm3 v_pm10 w))))))"

text \<open>The second half of \<^verbatim>\<open>poll_openmeteo_air\<close>, from \<^verbatim>\<open>url_hourly\<close> on.\<close>

definition air_fallback :: "env \<Rightarrow> stmt" where
  "air_fallback E w =
     (case fetch E ''openmeteo_air'' URL_AIR_HOURLY w of
        (Inl e, w1) \<Rightarrow> (Some e, w1)
      | (Inr (data, err), w1) \<Rightarrow>
          (case err of
             Some e \<Rightarrow> (None, log_warn ''openmeteo_air: '' e w1)
           | None \<Rightarrow>
               if \<not> truthy data then (None, w1)
               else
                 (case py_in ''hourly'' data of
                    Inl e \<Rightarrow> (Some e, w1)
                  | Inr b \<Rightarrow>
                      if \<not> b then (None, w1)
                      else
                        (case py_getitem data ''hourly'' of
                           Inl e \<Rightarrow> (Some e, w1)
                         | Inr h \<Rightarrow>
                             try_except (air_parse_hourly E h)
                               (\<lambda>e w. (None, log_warn ''openmeteo_air: parse hourly failed: '' e w))
                               w1))))"

text \<open>
  \<^verbatim>\<open>poll_openmeteo_air\<close>. The condition \<^verbatim>\<open>not err and data and "current" in data\<close> is
  evaluated from the left; when the body of the first \<^verbatim>\<open>try\<close> completes the function
  returns, and when it raises the warning is logged and the fallback follows.
\<close>

definition poll_openmeteo_air :: "env \<Rightarrow> stmt" where
  "poll_openmeteo_air E w =
     (case fetch E ''openmeteo_air'' URL_AIR_CURRENT w of
        (Inl e, w1) \<Rightarrow> (Some e, w1)
      | (Inr (data, err), w1) \<Rightarrow>
          if err = None \<and> truthy data then
            (case py_in ''current'' data of
               Inl e \<Rightarrow> (Some e, w1)
             | Inr b \<Rightarrow>
                 if b then
                   (case py_getitem data ''current'' of
                      Inl e \<Rightarrow> (Some e, w1)
                    | Inr c \<Rightarrow>
                        (case air_parse_current E c w1 of
                           (None, w2) \<Rightarrow> (None, w2)
                         | (Some e, w2) \<Rightarrow>
                             air_fallback E
                               (log_warn ''openmeteo_air: parse current failed: '' e w2)))
                 else air_fallback E w1)
          else air_fallback E w1)"

subsection \<open>Currency\<close>

definition URL_FX :: string where
  "URL_FX = ''https://api.frankfurter.app/latest?from=USD&to=KZT,EUR''"

text \<open>The body of the \<^verbatim>\<open>try\<close> of \<^verbatim>\<open>poll_fx\<close>.\<close>

definition fx_parse :: "env \<Rightarrow> json \<Rightarrow> stmt" where
  "fx_parse E data w =
     (case py_getitem data ''rates'' of
        Inl e \<Rightarrow> (Some e, w)
      | Inr rates \<Rightarrow>
          seq (if_in_not_none ''KZT'' rates (publish E rates ''KZT'' (\<lambda>x. x) fx_usd_kzt))
              (if_in_not_none ''EUR'' rates (publish E rates ''EUR'' (\<lambda>x. x) fx_eur_kzt))
              w)"

definition poll_fx :: "env \<Rightarrow> stmt" where
  "poll_fx E w =
     (case fetch E ''frankfurter'' URL_FX w of
        (Inl e, w1) \<Rightarrow> (Some e, w1)
      | (Inr (data, err), w1) \<Rightarrow>
          (case err of
             Some e \<Rightarrow> (None, log_warn ''frankfurter: '' e w1)
           | None \<Rightarrow>
               if \<not> truthy data then (None, w1)
               else
                 (case py_in ''rates'' data of
                    Inl e \<Rightarrow> (Some e, w1)
                  | Inr b \<Rightarrow>
                      if \<not> b then (None, w1)
                      else
                        try_except (fx_parse E data)
                          (\<lambda>e w. (None, log_warn ''frankfurter: parse failed: '' e w))
                          w1)))"

subsection \<open>Crypto\<close>

definition URL_BTC :: string where
  "URL_BTC = ''https://api.binance.com/api/v3/ticker/price?symbol=BTCUSDT''"

definition URL_ETH :: string where
  "URL_ETH = ''https://api.binance.com/api/v3/ticker/price?symbol=ETHUSDT''"

text \<open>\<^verbatim>\<open>if e: log_warn(...)\<close>.\<close>

definition warn_if_error :: "string \<Rightarrow> exn option \<Rightarrow> world \<Rightarrow> world" where
  "warn_if_error msg err w = (case err of None \<Rightarrow> w | Some e \<Rightarrow> log_warn msg e w)"

text \<open>The body of the \<^verbatim>\<open>try\<close> of \<^verbatim>\<open>poll_crypto\<close>.\<close>

definition crypto_parse :: "env \<Rightarrow> json \<Rightarrow> json \<Rightarrow> stmt" where
  "crypto_parse E btc eth =
     seq (if_truthy_in_not_none btc ''price'' (publish E btc ''price'' (\<lambda>x. x) crypto_btc_usd))
         (if_truthy_in_not_none eth ''price'' (publish E eth ''price'' (\<lambda>x. x) crypto_eth_usd))"

definition poll_crypto :: "env \<Rightarrow> stmt" where
  "poll_crypto E w =
     (case fetch E ''binance'' URL_BTC w of
        (Inl e, w1) \<Rightarrow> (Some e, w1)
      | (Inr (btc, e1), w1) \<Rightarrow>
          (case fetch E ''binance'' URL_ETH w1 of
             (Inl e, w2) \<Rightarrow> (Some e, w2)
           | (Inr (eth, e2), w2) \<Rightarrow>
               (let w3 = warn_if_error ''binance BTC: '' e1 w2;
                    w4 = warn_if_error ''binance ETH: '' e2 w3
                in try_except (crypto_parse E btc eth)
                     (\<lambda>e w. (None, log_warn ''binance: parse failed: '' e w))
                     w4)))"

subsection \<open>Tag statistics\<close>

definition URL_SO :: string where
  "URL_SO = ''https://api.stackexchange.com/2.3/tags/tensorflow;linux/info?site=stackoverflow''"

text \<open>
  \<^verbatim>\<open>for item in x\<close>: the elements of a list, the keys of a dict, the characters of a
  string; \<^verbatim>\<open>TypeError\<close> on anything else.
\<close>

fun py_iter :: "json \<Rightarrow> exn + json list" where
  "py_iter (JList xs) = Inr xs"
| "py_iter (JObj kvs) = Inr (map (\<lambda>kv. JStr (fst kv)) kvs)"
| "py_iter (JStr s) = Inr (map (\<lambda>c. JStr [c]) s)"
| "py_iter JNull = Inl TypeError"
| "py_iter (JBool b) = Inl TypeError"
| "py_iter (JInt n) = Inl TypeError"
| "py_iter (JFloat x) = Inl TypeError"

text \<open>The label value of \<^verbatim>\<open>labels(tag=name)\<close> is \<^verbatim>\<open>str(name)\<close>.\<close>

definition py_str :: "env \<Rightarrow> json \<Rightarrow> string" where
  "py_str E v = (case v of JStr s \<Rightarrow> s | _ \<Rightarrow> str_of E v)"

text \<open>
  One iteration of the loop over the items. In
  \<^verbatim>\<open>so_tag_count.labels(tag=name).set(float(cnt))\<close> the child is looked up (and created)
  before \<^verbatim>\<open>float(cnt)\<close> is evaluated.
\<close>

definition so_item :: "env \<Rightarrow> json \<Rightarrow> stmt" where
  "so_item E item w =
     (case py_get item ''name'' of
        Inl e \<Rightarrow> (Some e, w)
      | Inr name \<Rightarrow>
          (case py_get item ''count'' of
             Inl e \<Rightarrow> (Some e, w)
           | Inr cnt \<Rightarrow>
               if truthy name \<and> cnt \<noteq> JNull then
                 (let w1 = gauge_labels (so_tag_count (py_str E name)) w
                  in case py_float E cnt of
                       Inl e \<Rightarrow> (Some e, w1)
                     | Inr x \<Rightarrow> (None, gauge_set (so_tag_count (py_str E name)) x w1))
               else (None, w)))"

fun so_items :: "env \<Rightarrow> json list \<Rightarrow> stmt" where
  "so_items E [] w = (None, w)"
| "so_items E (item # rest) w =
     (case so_item E item w of
        (Some e, w1) \<Rightarrow> (Some e, w1)
      | (None, w1) \<Rightarrow> so_items E rest w1)"

text \<open>The body of the \<^verbatim>\<open>try\<close> of \<^verbatim>\<open>poll_stackoverflow\<close>.\<close>

definition so_parse :: "env \<Rightarrow> json \<Rightarrow> stmt" where
  "so_parse E data w =
     (case py_getitem data ''items'' of
        Inl e \<Rightarrow> (Some e, w)
      | Inr items \<Rightarrow>
          (case py_iter items of
             Inl e \<Rightarrow> (Some e, w)
           | Inr xs \<Rightarrow> so_items E xs w))"

definition poll_stackoverflow :: "env \<Rightarrow> stmt" where
  "poll_stackoverflow E w =
     (if clock w - LAST_SO_POLL w < SO_MIN_PERIOD then (None, w)
      else
        (let w0 = w\<lparr>LAST_SO_POLL := clock w\<rparr>
         in case fetch E ''stackoverflow'' URL_SO w0 of
              (Inl e, w1) \<Rightarrow> (Some e, w1)
            | (Inr (data, err), w1) \<Rightarrow>
                (case err of
                   Some e \<Rightarrow> (None, log_warn ''stackoverflow: '' e w1)
                 | None \<Rightarrow>
                     if \<not> truthy data then (None, w1)
                     else
                       (case py_in ''items'' data of
                          Inl e \<Rightarrow> (Some e, w1)
                        | Inr b \<Rightarrow>
                            if \<not> b then (None, w1)
                            else
                              try_except (so_parse E data)
                                (\<lambda>e w. (None, log_warn ''stackoverflow: parse failed: '' e w))
                                w1))))"

section \<open>The scheduler loop\<close>

text \<open>The five calls in the \<^verbatim>\<open>try\<close> of \<^verbatim>\<open>loop\<close>, in their order.\<close>

definition collectors :: "env \<Rightarrow> stmt list" where
  "collectors E =
     [poll_openmeteo_weather E, poll_openmeteo_air E, poll_fx E, poll_crypto E,
      poll_stackoverflow E]"

text \<open>Statements one after the other: the first that raises ends the sequence.\<close>

fun run_all :: "stmt list \<Rightarrow> stmt" where
  "run_all [] w = (None, w)"
| "run_all (c # cs) w =
     (case c w of (Some e, w1) \<Rightarrow> (Some e, w1) | (None, w1) \<Rightarrow> run_all cs w1)"

text \<open>
  One pass of the body of \<^verbatim>\<open>while True\<close>: the \<^verbatim>\<open>try\<close> around the five collectors,
  \<^verbatim>\<open>except Exception\<close> logging the error, then \<^verbatim>\<open>time.sleep(SCRAPE_INTERVAL)\<close>. The
  result is \<open>Some e\<close> if the pass itself raises.
\<close>

definition cycle :: "env \<Rightarrow> stmt" where
  "cycle E w =
     (case try_except (run_all (collectors E))
             (\<lambda>e w. (None, log_warn ''main loop error: '' e w)) w of
        (Some e, w1) \<Rightarrow> (Some e, w1)
      | (None, w1) \<Rightarrow> (None, sleep SCRAPE_INTERVAL w1))"

text \<open>
  \<^verbatim>\<open>loop\<close> never returns; \<open>loop E n\<close> is its first \<open>n\<close> passes. The result is \<open>Some e\<close>
  when an exception leaves the \<^verbatim>\<open>while\<close> (which would end the thread) before \<open>n\<close> passes
  are done, and \<open>None\<close> when all \<open>n\<close> passes completed.
\<close>

fun loop :: "env \<Rightarrow> nat \<Rightarrow> stmt" where
  "loop E 0 w = (None, w)"
| "loop E (Suc n) w =
     (case cycle E w of (Some e, w1) \<Rightarrow> (Some e, w1) | (None, w1) \<Rightarrow> loop E n w1)"

section \<open>Notions used to state the properties\<close>

text \<open>
  Index \<open>i\<close> of an hourly series is \<^emph>\<open>past\<close> when its timestamp parses to an instant not
  after \<open>now\<close>, and \<^emph>\<open>usable\<close> when moreover its value is not \<^verbatim>\<open>None\<close>.
  \<open>float_or_none\<close> is \<^verbatim>\<open>float(v)\<close> with every exception turned into \<^verbatim>\<open>None\<close>.
\<close>

definition past_at :: "env \<Rightarrow> real \<Rightarrow> json list \<Rightarrow> nat \<Rightarrow> bool" where
  "past_at E now ts i = (case parse_iso_ts E (ts ! i) of None \<Rightarrow> False | Some dt \<Rightarrow> dt \<le> now)"

definition usable_at :: "env \<Rightarrow> real \<Rightarrow> json list \<Rightarrow> json list \<Rightarrow> nat \<Rightarrow> bool" where
  "usable_at E now ts vs i = (past_at E now ts i \<and> vs ! i \<noteq> JNull)"

definition float_or_none :: "env \<Rightarrow> json \<Rightarrow> real option" where
  "float_or_none E v = (case py_float E v of Inr x \<Rightarrow> Some x | Inl e \<Rightarrow> None)"

text \<open>The requests of the trace that went to a given URL.\<close>

definition requests_to :: "string \<Rightarrow> world \<Rightarrow> event list" where
  "requests_to url w = filter (\<lambda>ev. case ev of HttpGet u t \<Rightarrow> u = url | _ \<Rightarrow> False) (events w)"

subsection \<open>A small environment for concrete runs\<close>

text \<open>
  A stand-in for \<^verbatim>\<open>datetime.fromisoformat\<close> that knows a few timestamps of
  2024-01-01 (00:00 UTC is 1704067200), a stand-in for \<^verbatim>\<open>float\<close> on strings that knows
  a few numerals, and a network on which every request fails after one second.
\<close>

definition demo_fromisoformat :: "string \<Rightarrow> exn + pydatetime" where
  "demo_fromisoformat s =
     (if s = ''2024-01-01T09:00'' then Inr \<lparr>wall = 1704099600, utcoffset = None\<rparr>
      else if s = ''2024-01-01T11:00'' then Inr \<lparr>wall = 1704106800, utcoffset = None\<rparr>
      else if s = ''2024-01-01T13:00'' then Inr \<lparr>wall = 1704114000, utcoffset = None\<rparr>
      else if s = ''2024-01-01T11:00+00:00'' then Inr \<lparr>wall = 1704106800, utcoffset = Some 0\<rparr>
      else if s = ''2024-01-01T14:00+05:00'' then Inr \<lparr>wall = 1704117600, utcoffset = Some 18000\<rparr>
      else Inl ValueError)"

definition demo_float_of_str :: "string \<Rightarrow> real option" where
  "demo_float_of_str s =
     (if s = ''64250.5'' then Some 64250.5
      else if s = ''3120.25'' then Some 3120.25
      else None)"

definition no_network :: "string \<Rightarrow> real \<Rightarrow> reply" where
  "no_network url t = \<lparr>elapsed = 1, outcome = Inl (RequestError ''connection refused'')\<rparr>"

definition demo_env :: env where
  "demo_env =
     \<lparr>http = no_network, fromisoformat = demo_fromisoformat,
      float_of_str = demo_float_of_str, str_of = (\<lambda>v. ''?'')\<rparr>"

text \<open>A reply that succeeds with status 200 and the given JSON body after one second.\<close>

definition ok_reply :: "json \<Rightarrow> reply" where
  "ok_reply j = \<lparr>elapsed = 1, outcome = Inr \<lparr>status_code = 200, json_body = Inr j\<rparr>\<rparr>"

text \<open>A state at noon of 2024-01-01 in which nothing has happened yet.\<close>

definition noon :: real where
  "noon = 1704110400"

definition start_world :: world where
  "start_world =
     \<lparr>clock = noon, gauges = (\<lambda>k. None), counters = (\<lambda>k. 0), summaries = (\<lambda>k. []),
      LAST_SO_POLL = 0, events = []\<rparr>"

text \<open>
  A series is well formed for a key when the timestamps and the values of the key are both
  present, both lists, of the same length, and not empty.
\<close>

definition well_formed_series ::
  "(string \<times> json) list \<Rightarrow> string \<Rightarrow> json list \<Rightarrow> json list \<Rightarrow> bool" where
  "well_formed_series kvs key ts vs =
     (map_of kvs ''time'' = Some (JList ts) \<and> map_of kvs key = Some (JList vs) \<and>
      length ts = length vs \<and> ts \<noteq> [])"

text \<open>Three hourly timestamps, 09:00, 11:00 and 13:00, and a series over them.\<close>

definition demo_times :: "json list" where
  "demo_times = [JStr ''2024-01-01T09:00'', JStr ''2024-01-01T11:00'', JStr ''2024-01-01T13:00'']"

definition demo_series :: "json list \<Rightarrow> (string \<times> json) list" where
  "demo_series vs = [(''time'', JList demo_times), (''pm10'', JList vs)]"

text \<open>
  The counters after a call that counted one failure, or one success, for a source: that
  one counter is one higher and every other counter is as before.
\<close>

definition counted_failure :: "string \<Rightarrow> world \<Rightarrow> world \<Rightarrow> bool" where
  "counted_failure api w w' =
     (counters w' = (counters w)(api_fail_total api := Suc (counters w (api_fail_total api))))"

definition counted_success :: "string \<Rightarrow> world \<Rightarrow> world \<Rightarrow> bool" where
  "counted_success api w w' =
     (counters w' = (counters w)(api_success_total api := Suc (counters w (api_success_total api))))"

text \<open>Networks that answer every request in the same way.\<close>

definition always :: "reply \<Rightarrow> string \<Rightarrow> real \<Rightarrow> reply" where
  "always rp url t = rp"

definition unavailable :: reply where
  "unavailable = \<lparr>elapsed = 1, outcome = Inr \<lparr>status_code = 503, json_body = Inr JNull\<rparr>\<rparr>"

definition garbled :: reply where
  "garbled =
     \<lparr>elapsed = 1,
      outcome = Inr \<lparr>status_code = 200, json_body = Inl (RequestError ''invalid JSON'')\<rparr>\<rparr>"

text \<open>
  What a request of a URL issued at time \<open>t\<close> yields after the three calls: the exception
  of the network, the \<open>HTTPError\<close> of an error status, the exception of the decoder, or
  the payload.
\<close>

definition response_json :: "env \<Rightarrow> string \<Rightarrow> real \<Rightarrow> exn + json" where
  "response_json E url t =
     (case outcome (http E url t) of
        Inl e \<Rightarrow> Inl e
      | Inr r \<Rightarrow>
          if 400 \<le> status_code r \<and> status_code r < 600 then Inl (HTTPError (status_code r))
          else json_body r)"

text \<open>
  The state after the first three statements of a collector (the call of \<^verbatim>\<open>timed_get\<close>,
  the observation of the latency, the time stamp of the last scrape), written out.
\<close>

definition after_fetch :: "env \<Rightarrow> string \<Rightarrow> string \<Rightarrow> world \<Rightarrow> world" where
  "after_fetch E api url w =
     w\<lparr>clock := clock w + elapsed (http E url (clock w)),
       events := HttpGet url (clock w) # events w,
       counters :=
         (case response_json E url (clock w) of
            Inl e \<Rightarrow> (counters w)(api_fail_total api := Suc (counters w (api_fail_total api)))
          | Inr j \<Rightarrow>
              (counters w)(api_success_total api := Suc (counters w (api_success_total api)))),
       summaries :=
         (summaries w)(api_latency_seconds api :=
            elapsed (http E url (clock w)) # summaries w (api_latency_seconds api)),
       gauges :=
         (gauges w)(api_last_scrape_timestamp_seconds api \<mapsto>
            clock w + elapsed (http E url (clock w)))\<rparr>"

text \<open>
  A statement \<^emph>\<open>publishes\<close> the finite map \<open>m\<close> with outcome \<open>r\<close> when, from every state,
  it writes the entries of \<open>m\<close> into the gauges, changes nothing else, and ends with \<open>r\<close>
  (\<open>None\<close>: completed, \<open>Some e\<close>: raised \<open>e\<close>). \<open>sets_only s D\<close>: it publishes some map
  whose keys lie in \<open>D\<close>.
\<close>

definition publishes :: "stmt \<Rightarrow> (metric_key \<rightharpoonup> real) \<Rightarrow> exn option \<Rightarrow> bool" where
  "publishes s m r = (\<forall>w. s w = (r, w\<lparr>gauges := gauges w ++ m\<rparr>))"

definition sets_only :: "stmt \<Rightarrow> metric_key set \<Rightarrow> bool" where
  "sets_only s D = (\<exists>m r. publishes s m r \<and> dom m \<subseteq> D)"

text \<open>
  What a field of a dict comes to. \<open>guarded_field\<close> is for the code that tests
  \<^verbatim>\<open>k in c and c[k] is not None\<close>: a missing or \<^verbatim>\<open>None\<close> field is \<open>Inr None\<close> (nothing to
  publish), a field that converts is \<open>Inr (Some x)\<close>, a field on which \<^verbatim>\<open>float\<close> raises is
  \<open>Inl e\<close>. \<open>plain_field\<close> is for the code that tests \<^verbatim>\<open>k in c\<close> only.
\<close>

definition guarded_field :: "env \<Rightarrow> (string \<times> json) list \<Rightarrow> string \<Rightarrow> exn + real option" where
  "guarded_field E kvs k =
     (case map_of kvs k of
        None \<Rightarrow> Inr None
      | Some v \<Rightarrow>
          if v = JNull then Inr None
          else (case py_float E v of Inl e \<Rightarrow> Inl e | Inr x \<Rightarrow> Inr (Some x)))"

definition plain_field :: "env \<Rightarrow> (string \<times> json) list \<Rightarrow> string \<Rightarrow> exn + real option" where
  "plain_field E kvs k =
     (case map_of kvs k of
        None \<Rightarrow> Inr None
      | Some v \<Rightarrow> (case py_float E v of Inl e \<Rightarrow> Inl e | Inr x \<Rightarrow> Inr (Some x)))"

text \<open>
  Fields taken in order: a field with nothing to publish is passed over, a field with a
  value is published, and the first field that raised ends the processing; nothing after it
  is published. The result is the map of the published values and the exception, if any.
\<close>

fun publish_all ::
  "(metric_key \<times> (exn + real option)) list \<Rightarrow> (metric_key \<rightharpoonup> real) \<times> exn option" where
  "publish_all [] = (Map.empty, None)"
| "publish_all ((g, Inl e) # rest) = (Map.empty, Some e)"
| "publish_all ((g, Inr None) # rest) = publish_all rest"
| "publish_all ((g, Inr (Some x)) # rest) =
     ([g \<mapsto> x] ++ fst (publish_all rest), snd (publish_all rest))"

text \<open>A network given by a table from URLs to replies; other URLs do not answer.\<close>

definition net_table :: "(string \<times> reply) list \<Rightarrow> string \<Rightarrow> real \<Rightarrow> reply" where
  "net_table tbl url t = (case map_of tbl url of None \<Rightarrow> no_network url t | Some rp \<Rightarrow> rp)"





text \<open>
  The payload and the error that \<^verbatim>\<open>timed_get\<close> returns for what a request yields: the
  payload is \<^verbatim>\<open>None\<close> when the request failed, and the error is \<^verbatim>\<open>None\<close> when it
  succeeded.
\<close>

definition payload_of :: "exn + json \<Rightarrow> json" where
  "payload_of r = (case r of Inl e \<Rightarrow> JNull | Inr j \<Rightarrow> j)"

definition error_of :: "exn + json \<Rightarrow> exn option" where
  "error_of r = (case r of Inl e \<Rightarrow> Some e | Inr j \<Rightarrow> None)"

text \<open>
  The state after a \<^verbatim>\<open>try\<close> block whose body published the map \<open>fst pa\<close> and ended with
  \<open>snd pa\<close>, and whose handler logs a warning with the text \<open>msg\<close>.
\<close>

definition finish :: "string \<Rightarrow> (metric_key \<rightharpoonup> real) \<times> exn option \<Rightarrow> world \<Rightarrow> world" where
  "finish msg pa w =
     (case snd pa of
        None \<Rightarrow> w\<lparr>gauges := gauges w ++ fst pa\<rparr>
      | Some e \<Rightarrow> log_warn msg e (w\<lparr>gauges := gauges w ++ fst pa\<rparr>))"

text \<open>
  What the \<^verbatim>\<open>"price"\<close> field of a ticker payload comes to, for the test
  \<^verbatim>\<open>if d and "price" in d and d["price"] is not None\<close> on a payload that is a dict or
  \<^verbatim>\<open>None\<close>.
\<close>

definition price_field :: "env \<Rightarrow> json \<Rightarrow> exn + real option" where
  "price_field E d = (case d of JObj kvs \<Rightarrow> guarded_field E kvs ''price'' | _ \<Rightarrow> Inr None)"

text \<open>The fields of the three parsing blocks, in the order of the code.\<close>

definition weather_fields :: "env \<Rightarrow> (string \<times> json) list \<Rightarrow> (metric_key \<times> (exn + real option)) list" where
  "weather_fields E ck =
     [(weather_temperature_c, plain_field E ck ''temperature_2m''),
      (weather_wind_speed_ms, map_sum id (map_option (\<lambda>x. x / 3.6)) (plain_field E ck ''wind_speed_10m'')),
      (weather_humidity_percent, plain_field E ck ''relative_humidity_2m'')]"


definition crypto_fields :: "env \<Rightarrow> json \<Rightarrow> json \<Rightarrow> (metric_key \<times> (exn + real option)) list" where
  "crypto_fields E btc eth =
     [(crypto_btc_usd, price_field E btc), (crypto_eth_usd, price_field E eth)]"

text \<open>
  A network on which the BTC ticker does not answer and the ETH ticker answers with a
  price, and a state at noon in which the BTC price 64000 has been published before.
\<close>

definition crypto_env :: env where
  "crypto_env =
     demo_env\<lparr>http := net_table [(URL_ETH, ok_reply (JObj [(''price'', JStr ''3120.25'')]))]\<rparr>"

definition crypto_world :: world where
  "crypto_world = start_world\<lparr>gauges := (\<lambda>k. None)(crypto_btc_usd \<mapsto> 64000)\<rparr>"

text \<open>
  Networks for the currency and the weather collector: rates whose first field does not
  convert, rates whose second field does not convert, and current weather whose
  temperature is \<^verbatim>\<open>None\<close>.
\<close>

definition fx_env_bad_first :: env where
  "fx_env_bad_first =
     demo_env\<lparr>http := net_table
       [(URL_FX, ok_reply (JObj [(''rates'', JObj [(''KZT'', JStr ''n/a''), (''EUR'', JFloat 0.93)])]))]\<rparr>"

definition fx_env_bad_second :: env where
  "fx_env_bad_second =
     demo_env\<lparr>http := net_table
       [(URL_FX, ok_reply (JObj [(''rates'', JObj [(''KZT'', JFloat 470.5), (''EUR'', JStr ''n/a'')])]))]\<rparr>"

definition weather_env_null :: env where
  "weather_env_null =
     demo_env\<lparr>http := net_table
       [(URL_WEATHER,
         ok_reply (JObj [(''current'',
                          JObj [(''temperature_2m'', JNull), (''wind_speed_10m'', JFloat 7.2)])]))]\<rparr>"


definition gate_closed :: "world \<Rightarrow> bool" where
  "gate_closed w = (clock w - LAST_SO_POLL w < SO_MIN_PERIOD)"
















section \<open>Properties\<close>

subsection \<open>The backward scan\<close>

lemma scan_back_none:
  "(\<forall>i<n. \<not> usable_at E now ts vs i) \<Longrightarrow> scan_back E now ts vs n = None"
  by (induction n) (auto simp: usable_at_def past_at_def split: option.splits)

lemma scan_back_skip:
  "\<not> usable_at E now ts vs n \<Longrightarrow> scan_back E now ts vs (Suc n) = scan_back E now ts vs n"
  by (auto simp: usable_at_def past_at_def split: option.splits)

lemma scan_back_stop:
  "usable_at E now ts vs n \<Longrightarrow> scan_back E now ts vs (Suc n) = float_or_none E (vs ! n)"
  by (auto simp: usable_at_def past_at_def float_or_none_def split: option.splits sum.splits)

lemma scan_back_pick:
  "i < n \<Longrightarrow> usable_at E now ts vs i \<Longrightarrow> (\<forall>j<n. i < j \<longrightarrow> \<not> usable_at E now ts vs j)
   \<Longrightarrow> scan_back E now ts vs n = float_or_none E (vs ! i)"
proof (induction n)
  case 0
  then show ?case by simp
next
  case (Suc n)
  show ?case
  proof (cases "i = n")
    case True
    with Suc.prems have "usable_at E now ts vs n" by simp
    then have "scan_back E now ts vs (Suc n) = float_or_none E (vs ! n)"
      by (rule scan_back_stop)
    with True show ?thesis by simp
  next
    case False
    with Suc.prems have "i < n" by simp
    then have "\<not> usable_at E now ts vs n" using Suc.prems by simp
    then have "scan_back E now ts vs (Suc n) = scan_back E now ts vs n"
      by (rule scan_back_skip)
    also have "\<dots> = float_or_none E (vs ! i)"
      using Suc \<open>i < n\<close> by simp
    finally show ?thesis .
  qed
qed

lemma last_past_value_valid:
  "well_formed_series kvs key ts vs \<Longrightarrow>
   last_past_value E now (JObj kvs) key = Inr (scan_back E now ts vs (length ts))"
  by (simp add: last_past_value_def well_formed_series_def)

lemma last_past_value_invalid:
  "\<not> (\<exists>ts vs. well_formed_series kvs key ts vs) \<Longrightarrow>
   last_past_value E now (JObj kvs) key = Inr None"
  by (auto simp: last_past_value_def well_formed_series_def split: option.splits json.splits)

lemma parse_iso_ts_naive:
  "fromisoformat E (replace_Z s) = Inr dt \<Longrightarrow> utcoffset dt = None \<Longrightarrow>
   parse_iso_ts E (JStr s) = Some (wall dt)"
  by (simp add: parse_iso_ts_def parse_iso_ts_try_def)

lemma demo_parse:
  "parse_iso_ts demo_env (JStr ''2024-01-01T09:00'') = Some 1704099600"
  "parse_iso_ts demo_env (JStr ''2024-01-01T11:00'') = Some 1704106800"
  "parse_iso_ts demo_env (JStr ''2024-01-01T13:00'') = Some 1704114000"
  by (simp_all add: parse_iso_ts_def parse_iso_ts_try_def demo_env_def demo_fromisoformat_def
        replace_Z_def)

lemma demo_past:
  "past_at demo_env now demo_times 0 \<longleftrightarrow> 1704099600 \<le> now"
  "past_at demo_env now demo_times (Suc 0) \<longleftrightarrow> 1704106800 \<le> now"
  "past_at demo_env now demo_times (Suc (Suc 0)) \<longleftrightarrow> 1704114000 \<le> now"
  by (simp_all add: past_at_def demo_times_def demo_parse)

lemma demo_well_formed:
  "length vs = 3 \<Longrightarrow> well_formed_series (demo_series vs) ''pm10'' demo_times vs"
  by (simp add: well_formed_series_def demo_series_def demo_times_def)

lemma demo_length: "length demo_times = Suc (Suc (Suc 0))"
  by (simp add: demo_times_def)

lemma demo_float: "float_or_none E (JInt 1) = Some 1" "float_or_none E (JInt 2) = Some 2"
  by (simp_all add: float_or_none_def FLOAT_INT_LIMIT_def)

text \<open>
  C1, as amended. For a dict \<^verbatim>\<open>hourly\<close>: when the series is not well formed (timestamps or
  values missing, not lists, of unequal lengths, or empty) the result is \<^verbatim>\<open>None\<close>. When
  it is well formed, the result is \<^verbatim>\<open>float\<close> of the value at the greatest index whose
  timestamp parses to an instant not after \<open>now\<close> and whose value is not \<^verbatim>\<open>None\<close>
  (\<^verbatim>\<open>None\<close> if that value does not convert), and it is \<^verbatim>\<open>None\<close> when no timestamp is
  past. A timestamp without offset is read as UTC.
\<close>

theorem last_past_value_greatest_usable:
  "(\<not> (\<exists>ts vs. well_formed_series kvs key ts vs) \<longrightarrow>
      last_past_value E now (JObj kvs) key = Inr None)
   \<and> (\<forall>ts vs. well_formed_series kvs key ts vs \<longrightarrow>
        (\<forall>i<length ts.
           usable_at E now ts vs i \<and> (\<forall>j<length ts. i < j \<longrightarrow> \<not> usable_at E now ts vs j) \<longrightarrow>
           last_past_value E now (JObj kvs) key = Inr (float_or_none E (vs ! i)))
        \<and> ((\<forall>i<length ts. \<not> past_at E now ts i) \<longrightarrow>
             last_past_value E now (JObj kvs) key = Inr None))
   \<and> (\<forall>s dt. fromisoformat E (replace_Z s) = Inr dt \<and> utcoffset dt = None \<longrightarrow>
        parse_iso_ts E (JStr s) = Some (wall dt))"
proof (intro conjI allI impI)
  assume "\<not> (\<exists>ts vs. well_formed_series kvs key ts vs)"
  then show "last_past_value E now (JObj kvs) key = Inr None"
    by (rule last_past_value_invalid)
next
  fix ts vs i
  assume shape: "well_formed_series kvs key ts vs"
    and i: "i < length ts"
    and u: "usable_at E now ts vs i \<and> (\<forall>j<length ts. i < j \<longrightarrow> \<not> usable_at E now ts vs j)"
  from shape have "last_past_value E now (JObj kvs) key = Inr (scan_back E now ts vs (length ts))"
    by (rule last_past_value_valid)
  also have "scan_back E now ts vs (length ts) = float_or_none E (vs ! i)"
    using i u by (simp add: scan_back_pick)
  finally show "last_past_value E now (JObj kvs) key = Inr (float_or_none E (vs ! i))" .
next
  fix ts vs
  assume shape: "well_formed_series kvs key ts vs"
    and np: "\<forall>i<length ts. \<not> past_at E now ts i"
  from np have "scan_back E now ts vs (length ts) = None"
    by (simp add: scan_back_none usable_at_def)
  with shape show "last_past_value E now (JObj kvs) key = Inr None"
    by (simp add: last_past_value_valid)
next
  fix s dt
  assume "fromisoformat E (replace_Z s) = Inr dt \<and> utcoffset dt = None"
  then show "parse_iso_ts E (JStr s) = Some (wall dt)"
    by (simp add: parse_iso_ts_naive)
qed

text \<open>
  The theorem at concrete series over 09:00, 11:00 and 13:00: with the values 1, 2, 3 at
  noon the answer is 2; with the values missing it is \<^verbatim>\<open>None\<close>; at a time before all
  three timestamps it is \<^verbatim>\<open>None\<close>; and 11:00 without offset is 11:00 UTC.
\<close>

theorem last_past_value_greatest_usable_witness:
  "last_past_value demo_env noon (JObj (demo_series [JInt 1, JInt 2, JInt 3])) ''pm10'' = Inr (Some 2)
   \<and> last_past_value demo_env noon (JObj [(''time'', JList demo_times)]) ''pm10'' = Inr None
   \<and> last_past_value demo_env 0 (JObj (demo_series [JInt 1, JInt 2, JInt 3])) ''pm10'' = Inr None
   \<and> parse_iso_ts demo_env (JStr ''2024-01-01T11:00'') = Some 1704106800"
proof (intro conjI)
  let ?vs = "[JInt 1, JInt 2, JInt 3]"
  have wf: "well_formed_series (demo_series ?vs) ''pm10'' demo_times ?vs"
    by (simp add: demo_well_formed)
  have i: "Suc 0 < length demo_times"
    by (simp add: demo_length)
  have u: "usable_at demo_env noon demo_times ?vs (Suc 0)"
    by (simp add: usable_at_def demo_past noon_def)
  have top: "\<forall>j<length demo_times. Suc 0 < j \<longrightarrow> \<not> usable_at demo_env noon demo_times ?vs j"
    by (simp add: demo_length All_less_Suc usable_at_def demo_past noon_def)
  note T = last_past_value_greatest_usable [of "demo_series ?vs" "''pm10''" demo_env noon]
  from T wf have "\<forall>i<length demo_times.
      usable_at demo_env noon demo_times ?vs i \<and>
      (\<forall>j<length demo_times. i < j \<longrightarrow> \<not> usable_at demo_env noon demo_times ?vs j) \<longrightarrow>
      last_past_value demo_env noon (JObj (demo_series ?vs)) ''pm10''
        = Inr (float_or_none demo_env (?vs ! i))"
    by blast
  with i u top
  have "last_past_value demo_env noon (JObj (demo_series ?vs)) ''pm10''
        = Inr (float_or_none demo_env (?vs ! Suc 0))"
    by blast
  then show "last_past_value demo_env noon (JObj (demo_series ?vs)) ''pm10'' = Inr (Some 2)"
    by (simp add: demo_float)
next
  let ?kvs = "[(''time'', JList demo_times)]"
  have "\<not> (\<exists>ts vs. well_formed_series ?kvs ''pm10'' ts vs)"
    by (simp add: well_formed_series_def)
  with last_past_value_greatest_usable [of ?kvs "''pm10''" demo_env noon]
  show "last_past_value demo_env noon (JObj ?kvs) ''pm10'' = Inr None"
    by blast
next
  let ?vs = "[JInt 1, JInt 2, JInt 3]"
  have wf: "well_formed_series (demo_series ?vs) ''pm10'' demo_times ?vs"
    by (simp add: demo_well_formed)
  have np: "\<forall>i<length demo_times. \<not> past_at demo_env 0 demo_times i"
    by (simp add: demo_length All_less_Suc demo_past)
  from last_past_value_greatest_usable [of "demo_series ?vs" "''pm10''" demo_env 0] wf np
  show "last_past_value demo_env 0 (JObj (demo_series ?vs)) ''pm10'' = Inr None"
    by blast
next
  have f: "fromisoformat demo_env (replace_Z ''2024-01-01T11:00'')
             = Inr \<lparr>wall = 1704106800, utcoffset = None\<rparr>"
    by (simp add: demo_env_def demo_fromisoformat_def replace_Z_def)
  from last_past_value_greatest_usable [of "[]" "''pm10''" demo_env 0] f
  have "parse_iso_ts demo_env (JStr ''2024-01-01T11:00'')
          = Some (wall \<lparr>wall = 1704106800, utcoffset = None\<rparr>)"
    by (metis pydatetime.select_convs(2))
  then show "parse_iso_ts demo_env (JStr ''2024-01-01T11:00'') = Some 1704106800"
    by simp
qed

text \<open>
  C1 as stated fails. In the series 09:00, 11:00 with the values 1 and \<^verbatim>\<open>None\<close>, at noon,
  index 1 is the greatest index whose timestamp is past and its value is \<^verbatim>\<open>None\<close>; the
  function does not return that value but 1.0, the value at index 0.
\<close>

theorem last_past_value_null_counterexample:
  "past_at demo_env noon [JStr ''2024-01-01T09:00'', JStr ''2024-01-01T11:00''] 1
   \<and> [JInt 1, JNull] ! 1 = JNull
   \<and> last_past_value demo_env noon
        (JObj [(''time'', JList [JStr ''2024-01-01T09:00'', JStr ''2024-01-01T11:00'']),
               (''pm10'', JList [JInt 1, JNull])]) ''pm10''
      = Inr (Some 1)"
  by (simp add: past_at_def demo_parse noon_def last_past_value_def numeral_2_eq_2
        FLOAT_INT_LIMIT_def)

lemma demo_not_a_number: "float_of_str demo_env ''n/a'' = None"
  by (simp add: demo_env_def demo_float_of_str_def)

text \<open>
  C2, as amended. In the backward scan an index whose timestamp does not parse or whose
  value is \<^verbatim>\<open>None\<close> is skipped and the scan goes on with the next earlier index; a past
  index whose value is not \<^verbatim>\<open>None\<close> but does not convert to a float ends the scan with
  \<^verbatim>\<open>None\<close>. On a well-formed series: when the most recent past index holds \<^verbatim>\<open>None\<close>
  the result comes from the next earlier usable index, and when no index is usable the
  result is \<^verbatim>\<open>None\<close>.
\<close>

theorem scan_back_skips_unparsable_and_null:
  "(parse_iso_ts E (ts ! i) = None \<or> vs ! i = JNull \<longrightarrow>
      scan_back E now ts vs (Suc i) = scan_back E now ts vs i)
   \<and> (usable_at E now ts vs i \<and> float_or_none E (vs ! i) = None \<longrightarrow>
        scan_back E now ts vs (Suc i) = None)
   \<and> (well_formed_series kvs key ts vs \<longrightarrow>
        (\<forall>i k. k < i \<and> i < length ts \<and> past_at E now ts i \<and> vs ! i = JNull \<and>
               (\<forall>j<length ts. i < j \<longrightarrow> \<not> past_at E now ts j) \<and>
               usable_at E now ts vs k \<and> (\<forall>j<i. k < j \<longrightarrow> \<not> usable_at E now ts vs j) \<longrightarrow>
           last_past_value E now (JObj kvs) key = Inr (float_or_none E (vs ! k)))
        \<and> ((\<forall>i<length ts. \<not> usable_at E now ts vs i) \<longrightarrow>
             last_past_value E now (JObj kvs) key = Inr None))"
proof (intro conjI allI impI)
  assume "parse_iso_ts E (ts ! i) = None \<or> vs ! i = JNull"
  then have "\<not> usable_at E now ts vs i"
    by (auto simp: usable_at_def past_at_def)
  then show "scan_back E now ts vs (Suc i) = scan_back E now ts vs i"
    by (rule scan_back_skip)
next
  assume h: "usable_at E now ts vs i \<and> float_or_none E (vs ! i) = None"
  then have "scan_back E now ts vs (Suc i) = float_or_none E (vs ! i)"
    by (intro scan_back_stop) simp
  with h show "scan_back E now ts vs (Suc i) = None"
    by simp
next
  fix i k
  assume wf: "well_formed_series kvs key ts vs"
    and h: "k < i \<and> i < length ts \<and> past_at E now ts i \<and> vs ! i = JNull \<and>
            (\<forall>j<length ts. i < j \<longrightarrow> \<not> past_at E now ts j) \<and>
            usable_at E now ts vs k \<and> (\<forall>j<i. k < j \<longrightarrow> \<not> usable_at E now ts vs j)"
  have "\<forall>j<length ts. k < j \<longrightarrow> \<not> usable_at E now ts vs j"
  proof (intro allI impI)
    fix j
    assume j: "j < length ts" "k < j"
    consider "j < i" | "j = i" | "i < j" by linarith
    then show "\<not> usable_at E now ts vs j"
    proof cases
      case 1
      with h j show ?thesis by simp
    next
      case 2
      with h show ?thesis by (simp add: usable_at_def)
    next
      case 3
      with h j show ?thesis by (simp add: usable_at_def)
    qed
  qed
  moreover from h have "k < length ts" by simp
  ultimately have "scan_back E now ts vs (length ts) = float_or_none E (vs ! k)"
    using h by (simp add: scan_back_pick)
  with wf show "last_past_value E now (JObj kvs) key = Inr (float_or_none E (vs ! k))"
    by (simp add: last_past_value_valid)
next
  assume wf: "well_formed_series kvs key ts vs"
    and "\<forall>i<length ts. \<not> usable_at E now ts vs i"
  then have "scan_back E now ts vs (length ts) = None"
    by (simp add: scan_back_none)
  with wf show "last_past_value E now (JObj kvs) key = Inr None"
    by (simp add: last_past_value_valid)
qed

text \<open>
  The theorem on the series 09:00, 11:00, 13:00 at noon. With the values 1, \<^verbatim>\<open>None\<close>, 3
  index 1 is skipped and the result is 1, the value at index 0; with the values 1,
  \<^verbatim>\<open>"n/a"\<close>, 3 the scan stops at index 1 with \<^verbatim>\<open>None\<close>; with three \<^verbatim>\<open>None\<close> values
  the result is \<^verbatim>\<open>None\<close>.
\<close>

theorem scan_back_skips_unparsable_and_null_witness:
  "scan_back demo_env noon demo_times [JInt 1, JNull, JInt 3] (Suc (Suc 0))
     = scan_back demo_env noon demo_times [JInt 1, JNull, JInt 3] (Suc 0)
   \<and> scan_back demo_env noon demo_times [JInt 1, JStr ''n/a'', JInt 3] (Suc (Suc 0)) = None
   \<and> last_past_value demo_env noon (JObj (demo_series [JInt 1, JNull, JInt 3])) ''pm10''
       = Inr (Some 1)
   \<and> last_past_value demo_env noon (JObj (demo_series [JNull, JNull, JNull])) ''pm10''
       = Inr None"
proof (intro conjI)
  let ?vs = "[JInt 1, JNull, JInt 3]"
  have "?vs ! Suc 0 = JNull" by simp
  with scan_back_skips_unparsable_and_null
         [of demo_env demo_times "Suc 0" ?vs noon "demo_series ?vs" "''pm10''"]
  show "scan_back demo_env noon demo_times ?vs (Suc (Suc 0))
        = scan_back demo_env noon demo_times ?vs (Suc 0)"
    by blast
next
  let ?vs = "[JInt 1, JStr ''n/a'', JInt 3]"
  have u: "usable_at demo_env noon demo_times ?vs (Suc 0)"
    by (simp add: usable_at_def demo_past noon_def)
  have f: "float_or_none demo_env (?vs ! Suc 0) = None"
    by (simp add: float_or_none_def demo_env_def demo_float_of_str_def)
  from scan_back_skips_unparsable_and_null
         [of demo_env demo_times "Suc 0" ?vs noon "demo_series ?vs" "''pm10''"] u f
  show "scan_back demo_env noon demo_times ?vs (Suc (Suc 0)) = None"
    by blast
next
  let ?vs = "[JInt 1, JNull, JInt 3]"
  have wf: "well_formed_series (demo_series ?vs) ''pm10'' demo_times ?vs"
    by (simp add: demo_well_formed)
  have h: "0 < Suc 0 \<and> Suc 0 < length demo_times \<and> past_at demo_env noon demo_times (Suc 0) \<and>
           ?vs ! Suc 0 = JNull \<and>
           (\<forall>j<length demo_times. Suc 0 < j \<longrightarrow> \<not> past_at demo_env noon demo_times j) \<and>
           usable_at demo_env noon demo_times ?vs 0 \<and>
           (\<forall>j<Suc 0. 0 < j \<longrightarrow> \<not> usable_at demo_env noon demo_times ?vs j)"
    by (simp add: demo_length All_less_Suc usable_at_def demo_past noon_def)
  from scan_back_skips_unparsable_and_null
         [of demo_env demo_times "Suc 0" ?vs noon "demo_series ?vs" "''pm10''"] wf
  have "\<forall>i k. k < i \<and> i < length demo_times \<and> past_at demo_env noon demo_times i \<and>
              ?vs ! i = JNull \<and>
              (\<forall>j<length demo_times. i < j \<longrightarrow> \<not> past_at demo_env noon demo_times j) \<and>
              usable_at demo_env noon demo_times ?vs k \<and>
              (\<forall>j<i. k < j \<longrightarrow> \<not> usable_at demo_env noon demo_times ?vs j) \<longrightarrow>
          last_past_value demo_env noon (JObj (demo_series ?vs)) ''pm10''
            = Inr (float_or_none demo_env (?vs ! k))"
    by blast
  with h have "last_past_value demo_env noon (JObj (demo_series ?vs)) ''pm10''
                 = Inr (float_or_none demo_env (?vs ! 0))"
    by blast
  then show "last_past_value demo_env noon (JObj (demo_series ?vs)) ''pm10'' = Inr (Some 1)"
    by (simp add: demo_float)
next
  let ?vs = "[JNull, JNull, JNull]"
  have wf: "well_formed_series (demo_series ?vs) ''pm10'' demo_times ?vs"
    by (simp add: demo_well_formed)
  have nu: "\<forall>i<length demo_times. \<not> usable_at demo_env noon demo_times ?vs i"
    by (simp add: demo_length All_less_Suc usable_at_def)
  from scan_back_skips_unparsable_and_null
         [of demo_env demo_times 0 ?vs noon "demo_series ?vs" "''pm10''"] wf nu
  show "last_past_value demo_env noon (JObj (demo_series ?vs)) ''pm10'' = Inr None"
    by blast
qed

text \<open>
  C2 as stated fails. In the series 09:00, 11:00 with the values 1 and \<^verbatim>\<open>"n/a"\<close>, at
  noon, the value at index 1 does not convert; the scan does not go on to index 0, whose
  timestamp is past and whose value converts to 1.0, but returns \<^verbatim>\<open>None\<close>.
\<close>

theorem scan_back_not_convertible_counterexample:
  "usable_at demo_env noon [JStr ''2024-01-01T09:00'', JStr ''2024-01-01T11:00'']
       [JInt 1, JStr ''n/a''] 0
   \<and> float_or_none demo_env (JInt 1) = Some 1
   \<and> py_float demo_env (JStr ''n/a'') = Inl ValueError
   \<and> last_past_value demo_env noon
        (JObj [(''time'', JList [JStr ''2024-01-01T09:00'', JStr ''2024-01-01T11:00'']),
               (''pm10'', JList [JInt 1, JStr ''n/a''])]) ''pm10''
      = Inr None"
proof (intro conjI)
  show "usable_at demo_env noon [JStr ''2024-01-01T09:00'', JStr ''2024-01-01T11:00'']
          [JInt 1, JStr ''n/a''] 0"
    by (simp add: usable_at_def past_at_def demo_parse noon_def)
  show "float_or_none demo_env (JInt 1) = Some 1"
    by (simp add: demo_float)
  show f: "py_float demo_env (JStr ''n/a'') = Inl ValueError"
    by (simp add: demo_env_def demo_float_of_str_def)
  show "last_past_value demo_env noon
        (JObj [(''time'', JList [JStr ''2024-01-01T09:00'', JStr ''2024-01-01T11:00'']),
               (''pm10'', JList [JInt 1, JStr ''n/a''])]) ''pm10''
      = Inr None"
    by (simp add: last_past_value_def numeral_2_eq_2 demo_parse noon_def demo_not_a_number)
qed

subsection \<open>The fetcher\<close>

lemma http_get_json_snd:
  "snd (http_get_json E url w)
   = w\<lparr>clock := clock w + elapsed (http E url (clock w)),
        events := HttpGet url (clock w) # events w\<rparr>"
  by (simp add: http_get_json_def Let_def split: sum.splits)

lemma timed_get_fail:
  "fst (http_get_json E url w) = Inl e \<Longrightarrow>
   timed_get E api url w
   = (Inr (JNull, elapsed (http E url (clock w)), Some e),
      counter_inc (api_fail_total api) (snd (http_get_json E url w)))"
proof -
  assume f: "fst (http_get_json E url w) = Inl e"
  then obtain b where h: "http_get_json E url w = (Inl e, b)"
    by (cases "http_get_json E url w") auto
  have b: "b = w\<lparr>clock := clock w + elapsed (http E url (clock w)),
                   events := HttpGet url (clock w) # events w\<rparr>"
    using http_get_json_snd [of E url w] h by simp
  show ?thesis
    by (simp add: timed_get_def timed_get_try_def Let_def counter_inc_def h b)
qed

lemma timed_get_ok:
  "fst (http_get_json E url w) = Inr j \<Longrightarrow>
   timed_get E api url w
   = (Inr (j, elapsed (http E url (clock w)), None),
      counter_inc (api_success_total api) (snd (http_get_json E url w)))"
proof -
  assume f: "fst (http_get_json E url w) = Inr j"
  then obtain b where h: "http_get_json E url w = (Inr j, b)"
    by (cases "http_get_json E url w") auto
  have b: "b = w\<lparr>clock := clock w + elapsed (http E url (clock w)),
                   events := HttpGet url (clock w) # events w\<rparr>"
    using http_get_json_snd [of E url w] h by simp
  show ?thesis
    by (simp add: timed_get_def timed_get_try_def Let_def counter_inc_def h b)
qed

lemma counters_after_inc:
  "counters (counter_inc k (snd (http_get_json E url w))) = (counters w)(k := Suc (counters w k))"
  by (simp add: counter_inc_def http_get_json_snd)

text \<open>
  C5. \<^verbatim>\<open>timed_get\<close> never raises: it always returns a triple. When \<^verbatim>\<open>session.get\<close>
  raises, when the status is an error status, or when decoding the body raises, the triple
  is \<^verbatim>\<open>None\<close>, the latency and the exception, and the failure counter of the source went
  up by exactly one, no other counter changing. When all three calls succeed the triple
  is the payload, the latency and no error, and the success counter of the source went up
  by exactly one, no other counter changing.
\<close>

theorem timed_get_failures_as_data:
  "(\<exists>data latency err. fst (timed_get E api url w) = Inr (data, latency, err))
   \<and> (\<forall>e. outcome (http E url (clock w)) = Inl e \<longrightarrow>
         fst (timed_get E api url w) = Inr (JNull, elapsed (http E url (clock w)), Some e) \<and>
         counted_failure api w (snd (timed_get E api url w)))
   \<and> (\<forall>r. outcome (http E url (clock w)) = Inr r \<and> 400 \<le> status_code r \<and> status_code r < 600 \<longrightarrow>
         fst (timed_get E api url w)
           = Inr (JNull, elapsed (http E url (clock w)), Some (HTTPError (status_code r))) \<and>
         counted_failure api w (snd (timed_get E api url w)))
   \<and> (\<forall>r e. outcome (http E url (clock w)) = Inr r \<and>
            \<not> (400 \<le> status_code r \<and> status_code r < 600) \<and> json_body r = Inl e \<longrightarrow>
         fst (timed_get E api url w) = Inr (JNull, elapsed (http E url (clock w)), Some e) \<and>
         counted_failure api w (snd (timed_get E api url w)))
   \<and> (\<forall>r j. outcome (http E url (clock w)) = Inr r \<and>
            \<not> (400 \<le> status_code r \<and> status_code r < 600) \<and> json_body r = Inr j \<longrightarrow>
         fst (timed_get E api url w) = Inr (j, elapsed (http E url (clock w)), None) \<and>
         counted_success api w (snd (timed_get E api url w)))"
proof (intro conjI allI impI)
  show "\<exists>data latency err. fst (timed_get E api url w) = Inr (data, latency, err)"
  proof (cases "fst (http_get_json E url w)")
    case (Inl e)
    then show ?thesis by (simp add: timed_get_fail)
  next
    case (Inr j)
    then show ?thesis by (simp add: timed_get_ok)
  qed
next
  fix e
  assume "outcome (http E url (clock w)) = Inl e"
  then have f: "fst (http_get_json E url w) = Inl e"
    by (simp add: http_get_json_def Let_def)
  show "fst (timed_get E api url w) = Inr (JNull, elapsed (http E url (clock w)), Some e)"
    by (simp add: timed_get_fail [OF f])
  show "counted_failure api w (snd (timed_get E api url w))"
    by (simp add: timed_get_fail [OF f] counted_failure_def counters_after_inc)
next
  fix r
  assume "outcome (http E url (clock w)) = Inr r \<and> 400 \<le> status_code r \<and> status_code r < 600"
  then have f: "fst (http_get_json E url w) = Inl (HTTPError (status_code r))"
    by (simp add: http_get_json_def Let_def)
  show "fst (timed_get E api url w)
          = Inr (JNull, elapsed (http E url (clock w)), Some (HTTPError (status_code r)))"
    by (simp add: timed_get_fail [OF f])
  show "counted_failure api w (snd (timed_get E api url w))"
    by (simp add: timed_get_fail [OF f] counted_failure_def counters_after_inc)
next
  fix r e
  assume "outcome (http E url (clock w)) = Inr r \<and>
          \<not> (400 \<le> status_code r \<and> status_code r < 600) \<and> json_body r = Inl e"
  then have f: "fst (http_get_json E url w) = Inl e"
    by (auto simp: http_get_json_def Let_def)
  show "fst (timed_get E api url w) = Inr (JNull, elapsed (http E url (clock w)), Some e)"
    by (simp add: timed_get_fail [OF f])
  show "counted_failure api w (snd (timed_get E api url w))"
    by (simp add: timed_get_fail [OF f] counted_failure_def counters_after_inc)
next
  fix r j
  assume "outcome (http E url (clock w)) = Inr r \<and>
          \<not> (400 \<le> status_code r \<and> status_code r < 600) \<and> json_body r = Inr j"
  then have f: "fst (http_get_json E url w) = Inr j"
    by (auto simp: http_get_json_def Let_def)
  show "fst (timed_get E api url w) = Inr (j, elapsed (http E url (clock w)), None)"
    by (simp add: timed_get_ok [OF f])
  show "counted_success api w (snd (timed_get E api url w))"
    by (simp add: timed_get_ok [OF f] counted_success_def counters_after_inc)
qed

text \<open>
  The four cases on concrete networks: a refused connection, a 503, an undecodable body,
  and a 200 with the body \<^verbatim>\<open>{"price": "64250.5"}\<close>.
\<close>

theorem timed_get_failures_as_data_witness:
  "fst (timed_get demo_env ''binance'' URL_BTC start_world)
     = Inr (JNull, 1, Some (RequestError ''connection refused''))
   \<and> counted_failure ''binance'' start_world
       (snd (timed_get demo_env ''binance'' URL_BTC start_world))
   \<and> fst (timed_get (demo_env\<lparr>http := always unavailable\<rparr>) ''binance'' URL_BTC start_world)
       = Inr (JNull, 1, Some (HTTPError 503))
   \<and> counted_failure ''binance'' start_world
       (snd (timed_get (demo_env\<lparr>http := always unavailable\<rparr>) ''binance'' URL_BTC start_world))
   \<and> fst (timed_get (demo_env\<lparr>http := always garbled\<rparr>) ''binance'' URL_BTC start_world)
       = Inr (JNull, 1, Some (RequestError ''invalid JSON''))
   \<and> counted_failure ''binance'' start_world
       (snd (timed_get (demo_env\<lparr>http := always garbled\<rparr>) ''binance'' URL_BTC start_world))
   \<and> fst (timed_get (demo_env\<lparr>http := always (ok_reply (JObj [(''price'', JStr ''64250.5'')]))\<rparr>)
            ''binance'' URL_BTC start_world)
       = Inr (JObj [(''price'', JStr ''64250.5'')], 1, None)
   \<and> counted_success ''binance'' start_world
       (snd (timed_get (demo_env\<lparr>http := always (ok_reply (JObj [(''price'', JStr ''64250.5'')]))\<rparr>)
              ''binance'' URL_BTC start_world))"
proof -
  let ?ok = "ok_reply (JObj [(''price'', JStr ''64250.5'')])"
  have a: "outcome (http demo_env URL_BTC (clock start_world))
             = Inl (RequestError ''connection refused'')"
    "elapsed (http demo_env URL_BTC (clock start_world)) = 1"
    by (simp_all add: demo_env_def no_network_def)
  have b: "outcome (http (demo_env\<lparr>http := always unavailable\<rparr>) URL_BTC (clock start_world))
             = Inr \<lparr>status_code = 503, json_body = Inr JNull\<rparr>"
    "elapsed (http (demo_env\<lparr>http := always unavailable\<rparr>) URL_BTC (clock start_world)) = 1"
    by (simp_all add: always_def unavailable_def)
  have c: "outcome (http (demo_env\<lparr>http := always garbled\<rparr>) URL_BTC (clock start_world))
             = Inr \<lparr>status_code = 200, json_body = Inl (RequestError ''invalid JSON'')\<rparr>"
    "elapsed (http (demo_env\<lparr>http := always garbled\<rparr>) URL_BTC (clock start_world)) = 1"
    by (simp_all add: always_def garbled_def)
  have d: "outcome (http (demo_env\<lparr>http := always ?ok\<rparr>) URL_BTC (clock start_world))
             = Inr \<lparr>status_code = 200, json_body = Inr (JObj [(''price'', JStr ''64250.5'')])\<rparr>"
    "elapsed (http (demo_env\<lparr>http := always ?ok\<rparr>) URL_BTC (clock start_world)) = 1"
    by (simp_all add: always_def ok_reply_def)
  from timed_get_failures_as_data [of demo_env "''binance''" URL_BTC start_world] a
  have A: "fst (timed_get demo_env ''binance'' URL_BTC start_world)
             = Inr (JNull, 1, Some (RequestError ''connection refused'')) \<and>
           counted_failure ''binance'' start_world
             (snd (timed_get demo_env ''binance'' URL_BTC start_world))"
    by simp
  from timed_get_failures_as_data
         [of "demo_env\<lparr>http := always unavailable\<rparr>" "''binance''" URL_BTC start_world] b
  have B: "fst (timed_get (demo_env\<lparr>http := always unavailable\<rparr>) ''binance'' URL_BTC start_world)
             = Inr (JNull, 1, Some (HTTPError 503)) \<and>
           counted_failure ''binance'' start_world
             (snd (timed_get (demo_env\<lparr>http := always unavailable\<rparr>) ''binance'' URL_BTC
                    start_world))"
    by simp
  from timed_get_failures_as_data
         [of "demo_env\<lparr>http := always garbled\<rparr>" "''binance''" URL_BTC start_world] c
  have C: "fst (timed_get (demo_env\<lparr>http := always garbled\<rparr>) ''binance'' URL_BTC start_world)
             = Inr (JNull, 1, Some (RequestError ''invalid JSON'')) \<and>
           counted_failure ''binance'' start_world
             (snd (timed_get (demo_env\<lparr>http := always garbled\<rparr>) ''binance'' URL_BTC start_world))"
    by simp
  from timed_get_failures_as_data
         [of "demo_env\<lparr>http := always ?ok\<rparr>" "''binance''" URL_BTC start_world] d
  have D: "fst (timed_get (demo_env\<lparr>http := always ?ok\<rparr>) ''binance'' URL_BTC start_world)
             = Inr (JObj [(''price'', JStr ''64250.5'')], 1, None) \<and>
           counted_success ''binance'' start_world
             (snd (timed_get (demo_env\<lparr>http := always ?ok\<rparr>) ''binance'' URL_BTC start_world))"
    by simp
  from A B C D show ?thesis by blast
qed

lemma http_get_json_fst: "fst (http_get_json E url w) = response_json E url (clock w)"
  by (simp add: http_get_json_def response_json_def Let_def split: sum.splits)

lemma fetch_eq:
  "fetch E api url w =
     (Inr (case response_json E url (clock w) of Inl e \<Rightarrow> (JNull, Some e) | Inr j \<Rightarrow> (j, None)),
      after_fetch E api url w)"
proof (cases "response_json E url (clock w)")
  case (Inl e)
  then have "fst (http_get_json E url w) = Inl e"
    by (simp add: http_get_json_fst)
  from timed_get_fail [OF this] Inl show ?thesis
    by (simp add: fetch_def after_fetch_def Let_def http_get_json_snd counter_inc_def
          summary_observe_def gauge_set_def)
next
  case (Inr j)
  then have "fst (http_get_json E url w) = Inr j"
    by (simp add: http_get_json_fst)
  from timed_get_ok [OF this] Inr show ?thesis
    by (simp add: fetch_def after_fetch_def Let_def http_get_json_snd counter_inc_def
          summary_observe_def gauge_set_def)
qed

lemma after_fetch_simps:
  "clock (after_fetch E api url w) = clock w + elapsed (http E url (clock w))"
  "events (after_fetch E api url w) = HttpGet url (clock w) # events w"
  "LAST_SO_POLL (after_fetch E api url w) = LAST_SO_POLL w"
  "gauges (after_fetch E api url w)
   = (gauges w)(api_last_scrape_timestamp_seconds api \<mapsto> clock w + elapsed (http E url (clock w)))"
  by (simp_all add: after_fetch_def)

subsection \<open>Statements that only publish gauges\<close>

lemma publishesD: "publishes s m r \<Longrightarrow> s w = (r, w\<lparr>gauges := gauges w ++ m\<rparr>)"
  by (simp add: publishes_def)

lemma publishes_skip: "publishes (\<lambda>w. (None, w)) Map.empty None"
  by (simp add: publishes_def)

lemma publishes_raise: "publishes (\<lambda>w. (Some e, w)) Map.empty (Some e)"
  by (simp add: publishes_def)

lemma publishes_set: "publishes (\<lambda>w. (None, gauge_set g x w)) [g \<mapsto> x] None"
  by (simp add: publishes_def gauge_set_def)

lemma publishes_publish:
  "publishes (publish E c k conv g)
     (case py_getitem c k of
        Inl e \<Rightarrow> Map.empty
      | Inr v \<Rightarrow> (case py_float E v of Inl e \<Rightarrow> Map.empty | Inr x \<Rightarrow> [g \<mapsto> conv x]))
     (case py_getitem c k of
        Inl e \<Rightarrow> Some e
      | Inr v \<Rightarrow> (case py_float E v of Inl e \<Rightarrow> Some e | Inr x \<Rightarrow> None))"
  by (simp add: publishes_def publish_def gauge_set_def split: sum.splits)

lemma publishes_seq_ok:
  "publishes a m None \<Longrightarrow> publishes b m' r \<Longrightarrow> publishes (seq a b) (m ++ m') r"
  by (simp add: publishes_def seq_def)

lemma publishes_seq_raise:
  "publishes a m (Some e) \<Longrightarrow> publishes (seq a b) m (Some e)"
  by (simp add: publishes_def seq_def)

lemma sets_onlyI: "publishes s m r \<Longrightarrow> dom m \<subseteq> D \<Longrightarrow> sets_only s D"
  by (auto simp: sets_only_def)

lemma sets_only_mono: "sets_only s D \<Longrightarrow> D \<subseteq> D' \<Longrightarrow> sets_only s D'"
  by (auto simp: sets_only_def)

lemma sets_only_skip: "sets_only (\<lambda>w. (None, w)) D"
  by (rule sets_onlyI [OF publishes_skip]) simp

lemma sets_only_raise: "sets_only (\<lambda>w. (Some e, w)) D"
  by (rule sets_onlyI [OF publishes_raise]) simp

lemma sets_only_publish: "sets_only (publish E c k conv g) {g}"
  by (rule sets_onlyI [OF publishes_publish]) (auto split: sum.splits)

lemma sets_only_seq:
  assumes "sets_only a D" and "sets_only b D"
  shows "sets_only (seq a b) D"
proof -
  from assms obtain m r m' r' where a: "publishes a m r" "dom m \<subseteq> D"
    and b: "publishes b m' r'" "dom m' \<subseteq> D"
    by (auto simp: sets_only_def)
  show ?thesis
  proof (cases r)
    case None
    with a b have "publishes (seq a b) (m ++ m') r'"
      by (simp add: publishes_seq_ok)
    moreover have "dom (m ++ m') \<subseteq> D" using a b by auto
    ultimately show ?thesis by (rule sets_onlyI)
  next
    case (Some e)
    with a have "publishes (seq a b) m (Some e)"
      by (simp add: publishes_seq_raise)
    then show ?thesis using a(2) by (rule sets_onlyI)
  qed
qed

lemma if_in_cases:
  "if_in k c body = (case py_in k c of
                       Inl e \<Rightarrow> (\<lambda>w. (Some e, w))
                     | Inr b \<Rightarrow> if b then body else (\<lambda>w. (None, w)))"
  by (rule ext) (simp add: if_in_def split: sum.splits)

lemma if_in_not_none_cases:
  "if_in_not_none k c body =
     (case py_in k c of
        Inl e \<Rightarrow> (\<lambda>w. (Some e, w))
      | Inr b \<Rightarrow>
          if b then
            (case py_getitem c k of
               Inl e \<Rightarrow> (\<lambda>w. (Some e, w))
             | Inr v \<Rightarrow> if v \<noteq> JNull then body else (\<lambda>w. (None, w)))
          else (\<lambda>w. (None, w)))"
  by (rule ext) (simp add: if_in_not_none_def split: sum.splits)

lemma if_truthy_in_not_none_cases:
  "if_truthy_in_not_none d k body =
     (if truthy d then if_in_not_none k d body else (\<lambda>w. (None, w)))"
  by (rule ext) (simp add: if_truthy_in_not_none_def)


lemma sets_only_if_in_not_none: "sets_only body D \<Longrightarrow> sets_only (if_in_not_none k c body) D"
  by (simp add: if_in_not_none_cases sets_only_skip sets_only_raise split: sum.splits)

lemma sets_only_if_truthy_in_not_none:
  "sets_only body D \<Longrightarrow> sets_only (if_truthy_in_not_none d k body) D"
  by (simp add: if_truthy_in_not_none_cases sets_only_skip sets_only_if_in_not_none)

text \<open>One guarded or plain field of a dict, as a statement.\<close>

lemma map_of_None_iff: "map_of kvs k = None \<longleftrightarrow> k \<notin> set (map fst kvs)"
  by (simp add: map_of_eq_None_iff)

lemma publishes_guarded_field:
  "publishes (if_in_not_none k (JObj kvs) (publish E (JObj kvs) k conv g))
     (fst (publish_all [(g, map_sum id (map_option conv) (guarded_field E kvs k))]))
     (snd (publish_all [(g, map_sum id (map_option conv) (guarded_field E kvs k))]))"
proof (cases "map_of kvs k")
  case None
  then have "k \<notin> set (map fst kvs)" by (simp add: map_of_None_iff)
  with None show ?thesis
    by (simp add: if_in_not_none_cases guarded_field_def publishes_skip)
next
  case (Some v)
  then have "k \<in> set (map fst kvs)"
    using map_of_None_iff [of kvs k] by simp
  with Some show ?thesis
    using publishes_publish [of E "JObj kvs" k conv g]
    by (cases "py_float E v")
       (simp_all add: if_in_not_none_cases guarded_field_def publishes_skip)
qed

lemma publishes_plain_field:
  "publishes (if_in k (JObj kvs) (publish E (JObj kvs) k conv g))
     (fst (publish_all [(g, map_sum id (map_option conv) (plain_field E kvs k))]))
     (snd (publish_all [(g, map_sum id (map_option conv) (plain_field E kvs k))]))"
proof (cases "map_of kvs k")
  case None
  then have "k \<notin> set (map fst kvs)" by (simp add: map_of_None_iff)
  with None show ?thesis
    by (simp add: if_in_cases plain_field_def publishes_skip)
next
  case (Some v)
  then have "k \<in> set (map fst kvs)"
    using map_of_None_iff [of kvs k] by simp
  with Some show ?thesis
    using publishes_publish [of E "JObj kvs" k conv g]
    by (cases "py_float E v") (simp_all add: if_in_cases plain_field_def)
qed

lemma publish_all_Cons:
  "publish_all ((g, f) # rest) =
     (case f of
        Inl e \<Rightarrow> (Map.empty, Some e)
      | Inr None \<Rightarrow> publish_all rest
      | Inr (Some x) \<Rightarrow> ([g \<mapsto> x] ++ fst (publish_all rest), snd (publish_all rest)))"
  by (simp split: sum.splits option.splits)

lemma publishes_seq_publish_all:
  assumes "publishes a (fst (publish_all [(g, f)])) (snd (publish_all [(g, f)]))"
    and "publishes b (fst (publish_all rest)) (snd (publish_all rest))"
  shows "publishes (seq a b) (fst (publish_all ((g, f) # rest))) (snd (publish_all ((g, f) # rest)))"
proof (cases f)
  case (Inl e)
  with assms(1) show ?thesis by (simp add: publishes_seq_raise)
next
  case (Inr v)
  show ?thesis
  proof (cases v)
    case None
    with Inr assms have "publishes (seq a b) (Map.empty ++ fst (publish_all rest)) (snd (publish_all rest))"
      by (intro publishes_seq_ok) simp_all
    with Inr None show ?thesis by simp
  next
    case (Some x)
    with Inr assms have "publishes (seq a b) ([g \<mapsto> x] ++ fst (publish_all rest)) (snd (publish_all rest))"
      by (intro publishes_seq_ok) simp_all
    with Inr Some show ?thesis by simp
  qed
qed

subsection \<open>Requests in the trace\<close>

lemma url_distinct:
  "distinct [URL_WEATHER, URL_AIR_CURRENT, URL_AIR_HOURLY, URL_FX, URL_BTC, URL_ETH, URL_SO]"
  by (simp add: URL_WEATHER_def URL_AIR_CURRENT_def URL_AIR_HOURLY_def URL_FX_def URL_BTC_def
        URL_ETH_def URL_SO_def)

lemma requests_to_simps:
  "requests_to url (log_warn msg e w) = requests_to url w"
  "requests_to url (w\<lparr>gauges := G\<rparr>) = requests_to url w"
  "requests_to url (w\<lparr>LAST_SO_POLL := t\<rparr>) = requests_to url w"
  "requests_to url (sleep d w) = requests_to url w"
  "requests_to url (after_fetch E api u w)
   = (if u = url then HttpGet u (clock w) # requests_to url w else requests_to url w)"
  by (simp_all add: requests_to_def log_warn_def sleep_def after_fetch_def)


lemma sets_only_snd: "sets_only s D \<Longrightarrow> \<exists>m. snd (s w) = w\<lparr>gauges := gauges w ++ m\<rparr> \<and> dom m \<subseteq> D"
  by (auto simp: sets_only_def publishes_def)



lemma try_except_log:
  "try_except body (\<lambda>e w. (None, log_warn msg e w)) w
   = (None, case fst (body w) of None \<Rightarrow> snd (body w) | Some e \<Rightarrow> log_warn msg e (snd (body w)))"
  by (cases "body w") (simp add: try_except_def split: option.splits)

lemma requests_to_try_except_log:
  "requests_to url (snd (try_except body (\<lambda>e w. (None, log_warn msg e w)) w))
   = requests_to url (snd (body w))"
  by (simp add: try_except_log requests_to_simps split: option.splits)

subsection \<open>The air-quality collector\<close>


lemma map_sum_id_field: "map_sum id (map_option (\<lambda>x. x)) f = f"
  by (cases f) (simp_all add: option.map_ident)



lemma air_parse_hourly_frame:
  "snd (air_parse_hourly E h w) = w\<lparr>gauges := gauges (snd (air_parse_hourly E h w))\<rparr>"
  by (simp add: air_parse_hourly_def set_if_some_def gauge_set_def
        split: sum.splits option.splits)



lemma dict_has_key:
  "map_of kvs k = Some v \<Longrightarrow>
   truthy (JObj kvs) \<and> py_in k (JObj kvs) = Inr True \<and> py_getitem (JObj kvs) k = Inr v"
  using map_of_None_iff [of kvs k] by (cases kvs) auto



lemma air_parse_hourly_clock:
  "clock (snd (air_parse_hourly E h w)) = clock w"
  using air_parse_hourly_frame [of E h w] by (metis world.select_convs(1) world.surjective world.update_convs(2))












subsection \<open>The collectors on dict payloads\<close>

lemma fetch_payload:
  "fetch E api url w =
     (Inr (payload_of (response_json E url (clock w)), error_of (response_json E url (clock w))),
      after_fetch E api url w)"
  by (simp add: fetch_eq payload_of_def error_of_def split: sum.splits)

lemma try_except_finish:
  "publishes s m r \<Longrightarrow>
   try_except s (\<lambda>e w. (None, log_warn msg e w)) w = (None, finish msg (m, r) w)"
  by (cases r) (simp_all add: try_except_def finish_def publishesD)

lemma gauges_simps:
  "gauges (log_warn msg e w) = gauges w"
  "gauges (warn_if_error msg err w) = gauges w"
  "gauges (finish msg pa w) = gauges w ++ fst pa"
  "gauges (sleep d w) = gauges w"
  by (simp_all add: log_warn_def warn_if_error_def finish_def sleep_def split: option.splits)

lemma gauges_try_except_log:
  "gauges (snd (try_except body (\<lambda>e w. (None, log_warn msg e w)) w)) = gauges (snd (body w))"
  by (simp add: try_except_log gauges_simps split: option.splits)

lemma publish_all_Some:
  "fst (publish_all fs) g = Some x \<Longrightarrow> (g, Inr (Some x)) \<in> set fs"
  by (induction fs rule: publish_all.induct) (auto split: if_splits)

lemma publish_all_dom: "dom (fst (publish_all fs)) \<subseteq> fst ` set fs"
  by (induction fs rule: publish_all.induct) auto

lemma publishes_weather_parse:
  "publishes (weather_parse E (JObj ck))
     (fst (publish_all (weather_fields E ck))) (snd (publish_all (weather_fields E ck)))"
  unfolding weather_parse_def weather_fields_def
  using publishes_plain_field [of "''temperature_2m''" ck E "\<lambda>x. x" weather_temperature_c]
        publishes_plain_field [of "''wind_speed_10m''" ck E "\<lambda>x. x / 3.6" weather_wind_speed_ms]
        publishes_plain_field [of "''relative_humidity_2m''" ck E "\<lambda>x. x" weather_humidity_percent]
  by (intro publishes_seq_publish_all) (simp_all only: map_sum_id_field)



lemma publishes_price_field:
  assumes "d = JNull \<or> (\<exists>kvs. d = JObj kvs)"
  shows "publishes (if_truthy_in_not_none d ''price'' (publish E d ''price'' (\<lambda>x. x) g))
           (fst (publish_all [(g, price_field E d)])) (snd (publish_all [(g, price_field E d)]))"
proof -
  from assms consider "d = JNull" | "d = JObj []" | kvs where "d = JObj kvs" "kvs \<noteq> []"
    by (cases d) auto
  then show ?thesis
  proof cases
    case 1
    then show ?thesis
      by (simp add: if_truthy_in_not_none_cases price_field_def publishes_skip)
  next
    case 2
    then show ?thesis
      by (simp add: if_truthy_in_not_none_cases price_field_def guarded_field_def publishes_skip)
  next
    case 3
    with publishes_guarded_field [of "''price''" kvs E "\<lambda>x. x" g] show ?thesis
      by (simp add: if_truthy_in_not_none_cases price_field_def map_sum_id_field)
  qed
qed

lemma publishes_crypto_parse:
  assumes "btc = JNull \<or> (\<exists>kvs. btc = JObj kvs)" and "eth = JNull \<or> (\<exists>kvs. eth = JObj kvs)"
  shows "publishes (crypto_parse E btc eth)
           (fst (publish_all (crypto_fields E btc eth))) (snd (publish_all (crypto_fields E btc eth)))"
  unfolding crypto_parse_def crypto_fields_def
  using publishes_price_field [OF assms(1), of E crypto_btc_usd]
        publishes_price_field [OF assms(2), of E crypto_eth_usd]
  by (intro publishes_seq_publish_all)

lemma sets_only_crypto_parse:
  "sets_only (crypto_parse E btc eth) {crypto_btc_usd, crypto_eth_usd}"
  unfolding crypto_parse_def
  by (intro sets_only_seq sets_only_if_truthy_in_not_none sets_only_mono [OF sets_only_publish])
     simp_all

lemma poll_weather_dict:
  assumes "response_json E URL_WEATHER (clock w) = Inr (JObj dk)"
    and "map_of dk ''current'' = Some (JObj ck)"
  shows "poll_openmeteo_weather E w
         = (None, finish ''openmeteo_weather: parse current failed: ''
                    (publish_all (weather_fields E ck))
                    (after_fetch E ''openmeteo_weather'' URL_WEATHER w))"
  using dict_has_key [OF assms(2)] try_except_finish [OF publishes_weather_parse, of E ck]
  by (simp add: poll_openmeteo_weather_def fetch_eq assms(1))


lemma poll_crypto_eq:
  "poll_crypto E w
   = try_except
       (crypto_parse E (payload_of (response_json E URL_BTC (clock w)))
          (payload_of (response_json E URL_ETH (clock w + elapsed (http E URL_BTC (clock w))))))
       (\<lambda>e w. (None, log_warn ''binance: parse failed: '' e w))
       (warn_if_error ''binance ETH: ''
          (error_of (response_json E URL_ETH (clock w + elapsed (http E URL_BTC (clock w)))))
          (warn_if_error ''binance BTC: '' (error_of (response_json E URL_BTC (clock w)))
             (after_fetch E ''binance'' URL_ETH (after_fetch E ''binance'' URL_BTC w))))"
  by (simp add: poll_crypto_def fetch_payload Let_def after_fetch_simps)

lemma poll_crypto_dicts:
  assumes "btc = payload_of (response_json E URL_BTC (clock w))"
    and "eth = payload_of (response_json E URL_ETH (clock w + elapsed (http E URL_BTC (clock w))))"
    and "btc = JNull \<or> (\<exists>kvs. btc = JObj kvs)" and "eth = JNull \<or> (\<exists>kvs. eth = JObj kvs)"
  shows "poll_crypto E w
         = (None, finish ''binance: parse failed: '' (publish_all (crypto_fields E btc eth))
              (warn_if_error ''binance ETH: ''
                 (error_of (response_json E URL_ETH (clock w + elapsed (http E URL_BTC (clock w)))))
                 (warn_if_error ''binance BTC: '' (error_of (response_json E URL_BTC (clock w)))
                    (after_fetch E ''binance'' URL_ETH (after_fetch E ''binance'' URL_BTC w)))))"
  unfolding poll_crypto_eq assms(1,2) [symmetric]
  using try_except_finish [OF publishes_crypto_parse [OF assms(3,4)], of E]
  by simp

lemma poll_crypto_gauges:
  "\<exists>m. dom m \<subseteq> {crypto_btc_usd, crypto_eth_usd} \<and>
       gauges (snd (poll_crypto E w))
       = gauges (after_fetch E ''binance'' URL_ETH (after_fetch E ''binance'' URL_BTC w)) ++ m"
proof -
  let ?w4 = "warn_if_error ''binance ETH: ''
          (error_of (response_json E URL_ETH (clock w + elapsed (http E URL_BTC (clock w)))))
          (warn_if_error ''binance BTC: '' (error_of (response_json E URL_BTC (clock w)))
             (after_fetch E ''binance'' URL_ETH (after_fetch E ''binance'' URL_BTC w)))"
  let ?body = "crypto_parse E (payload_of (response_json E URL_BTC (clock w)))
          (payload_of (response_json E URL_ETH (clock w + elapsed (http E URL_BTC (clock w)))))"
  from sets_only_snd [OF sets_only_crypto_parse, of E _ _ ?w4]
  obtain m where m: "snd (?body ?w4) = ?w4\<lparr>gauges := gauges ?w4 ++ m\<rparr>"
    "dom m \<subseteq> {crypto_btc_usd, crypto_eth_usd}"
    by blast
  have "gauges (snd (poll_crypto E w)) = gauges (snd (?body ?w4))"
    unfolding poll_crypto_eq by (rule gauges_try_except_log)
  also have "\<dots> = gauges ?w4 ++ m"
    by (simp add: m(1))
  finally show ?thesis
    using m(2) by (auto simp: gauges_simps)
qed

subsection \<open>The crypto collector\<close>

lemma crypto_keys:
  "crypto_btc_usd \<noteq> crypto_eth_usd"
  "crypto_btc_usd \<noteq> api_last_scrape_timestamp_seconds api"
  "crypto_eth_usd \<noteq> api_last_scrape_timestamp_seconds api"
  by (simp_all add: crypto_btc_usd_def crypto_eth_usd_def api_last_scrape_timestamp_seconds_def)

lemma crypto_gauge_cases:
  assumes "gauges w' = G ++ fst (publish_all (crypto_fields E btc eth))"
    and "G crypto_btc_usd = g0" and "G crypto_eth_usd = g1"
  shows "(gauges w' crypto_btc_usd = g0
          \<or> (\<exists>x. price_field E btc = Inr (Some x) \<and> gauges w' crypto_btc_usd = Some x))
       \<and> (gauges w' crypto_eth_usd = g1
          \<or> (\<exists>x. price_field E eth = Inr (Some x) \<and> gauges w' crypto_eth_usd = Some x))"
proof -
  let ?m = "fst (publish_all (crypto_fields E btc eth))"
  have b: "?m crypto_btc_usd = Some x \<Longrightarrow> price_field E btc = Inr (Some x)" for x
    using publish_all_Some [of "crypto_fields E btc eth" crypto_btc_usd x] crypto_keys(1)
    by (auto simp: crypto_fields_def)
  have e: "?m crypto_eth_usd = Some x \<Longrightarrow> price_field E eth = Inr (Some x)" for x
    using publish_all_Some [of "crypto_fields E btc eth" crypto_eth_usd x] crypto_keys(1)
    by (auto simp: crypto_fields_def)
  have "gauges w' crypto_btc_usd = g0
        \<or> (\<exists>x. price_field E btc = Inr (Some x) \<and> gauges w' crypto_btc_usd = Some x)"
    using b assms(1,2) by (cases "?m crypto_btc_usd") (simp_all add: map_add_def)
  moreover have "gauges w' crypto_eth_usd = g1
        \<or> (\<exists>x. price_field E eth = Inr (Some x) \<and> gauges w' crypto_eth_usd = Some x)"
    using e assms(1,3) by (cases "?m crypto_eth_usd") (simp_all add: map_add_def)
  ultimately show ?thesis by simp
qed

text \<open>
  C7. In a run of \<^verbatim>\<open>poll_crypto\<close> whose BTC request fails and whose ETH request yields
  a dict with a price that converts, the ETH gauge holds that price afterwards and the BTC
  gauge holds what it held before. More generally, for all payloads: the run changes no
  gauge other than the two prices and the time of the last scrape, and no gauge that held
  a value is left without one; and when each payload is a dict or \<^verbatim>\<open>None\<close>, each of
  the two price gauges either holds what it held before or holds the price that was
  parsed from its own payload.
\<close>

theorem crypto_partial_failure:
  assumes "w' = snd (poll_crypto E w)"
    and "t1 = clock w + elapsed (http E URL_BTC (clock w))"
    and "btc = payload_of (response_json E URL_BTC (clock w))"
    and "eth = payload_of (response_json E URL_ETH t1)"
  shows
    "(\<forall>e ek x. response_json E URL_BTC (clock w) = Inl e \<and>
              response_json E URL_ETH t1 = Inr (JObj ek) \<and>
              guarded_field E ek ''price'' = Inr (Some x) \<longrightarrow>
         gauges w' crypto_eth_usd = Some x \<and>
         gauges w' crypto_btc_usd = gauges w crypto_btc_usd)
     \<and> (\<forall>g. g \<notin> {crypto_btc_usd, crypto_eth_usd, api_last_scrape_timestamp_seconds ''binance''} \<longrightarrow>
            gauges w' g = gauges w g)
     \<and> (\<forall>g v. gauges w g = Some v \<longrightarrow> gauges w' g \<noteq> None)
     \<and> ((btc = JNull \<or> (\<exists>bk. btc = JObj bk)) \<and> (eth = JNull \<or> (\<exists>ek. eth = JObj ek)) \<longrightarrow>
          (gauges w' crypto_btc_usd = gauges w crypto_btc_usd
           \<or> (\<exists>x. price_field E btc = Inr (Some x) \<and> gauges w' crypto_btc_usd = Some x))
          \<and> (gauges w' crypto_eth_usd = gauges w crypto_eth_usd
             \<or> (\<exists>x. price_field E eth = Inr (Some x) \<and> gauges w' crypto_eth_usd = Some x)))"
proof -
  let ?G = "gauges (after_fetch E ''binance'' URL_ETH (after_fetch E ''binance'' URL_BTC w))"
  have G: "?G crypto_btc_usd = gauges w crypto_btc_usd" "?G crypto_eth_usd = gauges w crypto_eth_usd"
    "\<And>g. g \<noteq> api_last_scrape_timestamp_seconds ''binance'' \<Longrightarrow> ?G g = gauges w g"
    "\<And>g v. gauges w g = Some v \<Longrightarrow> ?G g \<noteq> None"
    by (simp_all add: after_fetch_simps crypto_keys)
  from poll_crypto_gauges [of E w] assms(1) obtain m where
    m: "dom m \<subseteq> {crypto_btc_usd, crypto_eth_usd}" "gauges w' = ?G ++ m"
    by auto
  have dicts: "gauges w' = ?G ++ fst (publish_all (crypto_fields E btc eth))"
    if "btc = JNull \<or> (\<exists>bk. btc = JObj bk)" "eth = JNull \<or> (\<exists>ek. eth = JObj ek)"
    using poll_crypto_dicts [of btc E w eth] that assms
    by (simp add: gauges_simps)
  have one: "gauges w' crypto_eth_usd = Some x \<and> gauges w' crypto_btc_usd = gauges w crypto_btc_usd"
    if h: "response_json E URL_BTC (clock w) = Inl e \<and>
           response_json E URL_ETH t1 = Inr (JObj ek) \<and>
           guarded_field E ek ''price'' = Inr (Some x)" for e ek x
  proof -
    from h assms have p: "btc = JNull" "eth = JObj ek"
      by (simp_all add: payload_of_def)
    with h have "fst (publish_all (crypto_fields E btc eth)) = [crypto_eth_usd \<mapsto> x]"
      by (simp add: crypto_fields_def price_field_def)
    with dicts p have "gauges w' = ?G ++ [crypto_eth_usd \<mapsto> x]"
      by simp
    then show ?thesis
      using G(1) crypto_keys(1) by simp
  qed
  have two: "gauges w' g = gauges w g"
    if "g \<notin> {crypto_btc_usd, crypto_eth_usd, api_last_scrape_timestamp_seconds ''binance''}" for g
  proof -
    from that m(1) have "m g = None" by auto
    with m(2) that G(3) [of g] show ?thesis
      by (simp add: map_add_def)
  qed
  have three: "gauges w' g \<noteq> None" if "gauges w g = Some v" for g v
    using G(4) [OF that] m(2) by (cases "m g") (simp_all add: map_add_def)
  have four: "(gauges w' crypto_btc_usd = gauges w crypto_btc_usd
           \<or> (\<exists>x. price_field E btc = Inr (Some x) \<and> gauges w' crypto_btc_usd = Some x))
          \<and> (gauges w' crypto_eth_usd = gauges w crypto_eth_usd
             \<or> (\<exists>x. price_field E eth = Inr (Some x) \<and> gauges w' crypto_eth_usd = Some x))"
    if "(btc = JNull \<or> (\<exists>bk. btc = JObj bk)) \<and> (eth = JNull \<or> (\<exists>ek. eth = JObj ek))"
    using that by (intro crypto_gauge_cases [OF dicts G(1,2)]) simp_all
  from one two three four show ?thesis
    by blast
qed

lemma crypto_env_net:
  "response_json crypto_env URL_BTC t = Inl (RequestError ''connection refused'')"
  "response_json crypto_env URL_ETH t = Inr (JObj [(''price'', JStr ''3120.25'')])"
  "elapsed (http crypto_env URL_BTC t) = 1"
  using url_distinct
  by (simp_all add: crypto_env_def response_json_def net_table_def ok_reply_def no_network_def)

text \<open>
  The collector at noon, with the BTC ticker down and the ETH ticker answering
  \<^verbatim>\<open>{"price": "3120.25"}\<close>: the ETH gauge holds 3120.25 and the BTC gauge still holds
  64000; the temperature gauge, which held nothing, still holds nothing.
\<close>

theorem crypto_partial_failure_witness:
  "gauges (snd (poll_crypto crypto_env crypto_world)) crypto_eth_usd = Some 3120.25
   \<and> gauges (snd (poll_crypto crypto_env crypto_world)) crypto_btc_usd = Some 64000
   \<and> gauges (snd (poll_crypto crypto_env crypto_world)) weather_temperature_c = None"
proof -
  let ?w' = "snd (poll_crypto crypto_env crypto_world)"
  note T = crypto_partial_failure [of ?w' crypto_env crypto_world "noon + 1" JNull
             "JObj [(''price'', JStr ''3120.25'')]"]
  have c: "clock crypto_world = noon"
    by (simp add: crypto_world_def start_world_def)
  have h: "?w' = snd (poll_crypto crypto_env crypto_world)"
    "noon + 1 = clock crypto_world + elapsed (http crypto_env URL_BTC (clock crypto_world))"
    "JNull = payload_of (response_json crypto_env URL_BTC (clock crypto_world))"
    "JObj [(''price'', JStr ''3120.25'')] = payload_of (response_json crypto_env URL_ETH (noon + 1))"
    by (simp_all add: c crypto_env_net payload_of_def)
  have f: "guarded_field crypto_env [(''price'', JStr ''3120.25'')] ''price'' = Inr (Some 3120.25)"
    by (simp add: guarded_field_def crypto_env_def demo_env_def demo_float_of_str_def)
  have r: "response_json crypto_env URL_BTC (clock crypto_world) = Inl (RequestError ''connection refused'') \<and>
           response_json crypto_env URL_ETH (noon + 1) = Inr (JObj [(''price'', JStr ''3120.25'')]) \<and>
           guarded_field crypto_env [(''price'', JStr ''3120.25'')] ''price'' = Inr (Some 3120.25)"
    by (simp add: crypto_env_net f)
  have k: "weather_temperature_c \<notin> {crypto_btc_usd, crypto_eth_usd, api_last_scrape_timestamp_seconds ''binance''}"
    by (simp add: weather_temperature_c_def crypto_btc_usd_def crypto_eth_usd_def
          api_last_scrape_timestamp_seconds_def)
  have g: "gauges crypto_world crypto_btc_usd = Some 64000"
    "gauges crypto_world weather_temperature_c = None"
    by (simp_all add: crypto_world_def weather_temperature_c_def crypto_btc_usd_def)
  from T [OF h] r have "gauges ?w' crypto_eth_usd = Some 3120.25 \<and>
      gauges ?w' crypto_btc_usd = gauges crypto_world crypto_btc_usd"
    by blast
  moreover from T [OF h] k have "gauges ?w' weather_temperature_c = gauges crypto_world weather_temperature_c"
    by blast
  ultimately show ?thesis
    using g by simp
qed

subsection \<open>Fields and the single \<^verbatim>\<open>try\<close> block\<close>



lemma fx_env_net:
  "response_json fx_env_bad_first URL_FX t
   = Inr (JObj [(''rates'', JObj [(''KZT'', JStr ''n/a''), (''EUR'', JFloat 0.93)])])"
  "response_json fx_env_bad_second URL_FX t
   = Inr (JObj [(''rates'', JObj [(''KZT'', JFloat 470.5), (''EUR'', JStr ''n/a'')])])"
  "response_json weather_env_null URL_WEATHER t
   = Inr (JObj [(''current'', JObj [(''temperature_2m'', JNull), (''wind_speed_10m'', JFloat 7.2)])])"
  by (simp_all add: fx_env_bad_first_def fx_env_bad_second_def weather_env_null_def
        response_json_def net_table_def ok_reply_def)

lemma demo_not_a_number_net: "float_of_str (demo_env\<lparr>http := h\<rparr>) ''n/a'' = None"
  by (simp add: demo_env_def demo_float_of_str_def)

lemma metric_keys_distinct:
  "fx_usd_kzt \<noteq> fx_eur_kzt"
  "fx_usd_kzt \<noteq> api_last_scrape_timestamp_seconds api"
  "fx_eur_kzt \<noteq> api_last_scrape_timestamp_seconds api"
  "weather_temperature_c \<noteq> weather_wind_speed_ms"
  "weather_temperature_c \<noteq> weather_humidity_percent"
  "weather_wind_speed_ms \<noteq> weather_humidity_percent"
  "weather_temperature_c \<noteq> api_last_scrape_timestamp_seconds api"
  "weather_wind_speed_ms \<noteq> api_last_scrape_timestamp_seconds api"
  "weather_humidity_percent \<noteq> api_last_scrape_timestamp_seconds api"
  by (simp_all add: fx_usd_kzt_def fx_eur_kzt_def weather_temperature_c_def
        weather_wind_speed_ms_def weather_humidity_percent_def
        api_last_scrape_timestamp_seconds_def)

subsection \<open>The tag-statistics collector and its gate\<close>

lemma so_item_frame: "snd (so_item E item w) = w\<lparr>gauges := gauges (snd (so_item E item w))\<rparr>"
  by (simp add: so_item_def gauge_labels_def gauge_set_def Let_def
        split: sum.splits option.splits)

lemma so_items_frame: "snd (so_items E xs w) = w\<lparr>gauges := gauges (snd (so_items E xs w))\<rparr>"
proof (induction xs arbitrary: w)
  case Nil
  then show ?case by simp
next
  case (Cons item rest)
  obtain r w1 where i: "so_item E item w = (r, w1)"
    by (cases "so_item E item w")
  from so_item_frame [of E item w] i have w1: "w1 = w\<lparr>gauges := gauges w1\<rparr>"
    by simp
  show ?case
  proof (cases r)
    case None
    from Cons [of w1] have "snd (so_items E rest w1) = w1\<lparr>gauges := gauges (snd (so_items E rest w1))\<rparr>" .
    also have "\<dots> = w\<lparr>gauges := gauges (snd (so_items E rest w1))\<rparr>"
      by (subst w1) simp
    finally show ?thesis
      using i None by simp
  next
    case (Some e)
    with i w1 show ?thesis by simp
  qed
qed

lemma so_parse_frame: "snd (so_parse E data w) = w\<lparr>gauges := gauges (snd (so_parse E data w))\<rparr>"
  using so_items_frame [of E _ w]
  by (simp add: so_parse_def split: sum.splits)


lemma frame_fields:
  assumes "w' = w\<lparr>gauges := G\<rparr>"
  shows "clock w' = clock w" "LAST_SO_POLL w' = LAST_SO_POLL w" "events w' = events w"
    "requests_to url w' = requests_to url w"
  using assms by (simp_all add: requests_to_simps)

lemma poll_so_closed: "gate_closed w \<Longrightarrow> poll_stackoverflow E w = (None, w)"
  by (simp add: poll_stackoverflow_def gate_closed_def)

lemma poll_so_open:
  assumes "\<not> gate_closed w"
  shows "requests_to URL_SO (snd (poll_stackoverflow E w)) = HttpGet URL_SO (clock w) # requests_to URL_SO w"
    and "LAST_SO_POLL (snd (poll_stackoverflow E w)) = clock w"
proof -
  let ?w1 = "after_fetch E ''stackoverflow'' URL_SO (w\<lparr>LAST_SO_POLL := clock w\<rparr>)"
  have b: "requests_to URL_SO (snd (so_parse E data ?w1)) = requests_to URL_SO ?w1"
    "LAST_SO_POLL (snd (so_parse E data ?w1)) = LAST_SO_POLL ?w1" for data
    using frame_fields [OF so_parse_frame [of E data ?w1]] by simp_all
  have w1: "requests_to URL_SO ?w1 = HttpGet URL_SO (clock w) # requests_to URL_SO w"
    "LAST_SO_POLL ?w1 = clock w"
    by (simp_all add: requests_to_simps after_fetch_simps)
  have l: "LAST_SO_POLL (log_warn msg e w0) = LAST_SO_POLL w0" for msg e w0
    by (simp add: log_warn_def)
  show "requests_to URL_SO (snd (poll_stackoverflow E w)) = HttpGet URL_SO (clock w) # requests_to URL_SO w"
    using assms w1(1)
    by (simp add: poll_stackoverflow_def gate_closed_def Let_def fetch_eq
          requests_to_try_except_log requests_to_simps(1) b(1)
          split: sum.splits option.splits)
  show "LAST_SO_POLL (snd (poll_stackoverflow E w)) = clock w"
    using assms w1(2)
    by (simp add: poll_stackoverflow_def gate_closed_def Let_def fetch_eq try_except_log l b(2)
          split: sum.splits option.splits)
qed

text \<open>
  C8. The minimum period is 600 seconds. A call of \<^verbatim>\<open>poll_stackoverflow\<close> made less
  than that after the time recorded in \<^verbatim>\<open>LAST_SO_POLL\<close> does nothing at all: no request,
  and the state, with the time of the last scrape of the source and \<^verbatim>\<open>LAST_SO_POLL\<close>,
  is unchanged. A call made later issues exactly one request and records its time in
  \<^verbatim>\<open>LAST_SO_POLL\<close>; any call in a later state with that same \<^verbatim>\<open>LAST_SO_POLL\<close> and a
  clock less than the minimum period after the request does nothing.
\<close>

theorem stackoverflow_rate_gate:
  "SO_MIN_PERIOD = 600
   \<and> (clock w - LAST_SO_POLL w < SO_MIN_PERIOD \<longrightarrow> poll_stackoverflow E w = (None, w))
   \<and> (\<not> clock w - LAST_SO_POLL w < SO_MIN_PERIOD \<longrightarrow>
        requests_to URL_SO (snd (poll_stackoverflow E w))
          = HttpGet URL_SO (clock w) # requests_to URL_SO w \<and>
        LAST_SO_POLL (snd (poll_stackoverflow E w)) = clock w \<and>
        (\<forall>w2. LAST_SO_POLL w2 = LAST_SO_POLL (snd (poll_stackoverflow E w)) \<and>
              clock w2 - clock w < SO_MIN_PERIOD \<longrightarrow>
              poll_stackoverflow E w2 = (None, w2)))"
proof (intro conjI allI impI)
  show "SO_MIN_PERIOD = 600"
    by (simp add: SO_MIN_PERIOD_def)
next
  assume "clock w - LAST_SO_POLL w < SO_MIN_PERIOD"
  then show "poll_stackoverflow E w = (None, w)"
    by (simp add: poll_so_closed gate_closed_def)
next
  assume "\<not> clock w - LAST_SO_POLL w < SO_MIN_PERIOD"
  then have o: "\<not> gate_closed w"
    by (simp add: gate_closed_def)
  show "requests_to URL_SO (snd (poll_stackoverflow E w))
          = HttpGet URL_SO (clock w) # requests_to URL_SO w"
    by (rule poll_so_open(1) [OF o])
  show "LAST_SO_POLL (snd (poll_stackoverflow E w)) = clock w"
    by (rule poll_so_open(2) [OF o])
  fix w2 :: world
  assume "LAST_SO_POLL w2 = LAST_SO_POLL (snd (poll_stackoverflow E w)) \<and>
          clock w2 - clock w < SO_MIN_PERIOD"
  with poll_so_open(2) [OF o, of E] have "gate_closed w2"
    by (simp add: gate_closed_def)
  then show "poll_stackoverflow E w2 = (None, w2)"
    by (rule poll_so_closed)
qed

lemma start_world_simps:
  "clock start_world = noon" "LAST_SO_POLL start_world = 0" "events start_world = []"
  "gauges start_world g = None" "requests_to url start_world = []"
  by (simp_all add: start_world_def requests_to_def)

text \<open>
  Two calls five minutes apart, the first at noon in a fresh state: the first issues the
  request, and the second, in the state the first one left with the clock at five past
  noon, changes nothing, so that there is still only the one request.
\<close>

theorem stackoverflow_rate_gate_witness:
  "requests_to URL_SO (snd (poll_stackoverflow demo_env start_world)) = [HttpGet URL_SO noon]
   \<and> LAST_SO_POLL (snd (poll_stackoverflow demo_env start_world)) = noon
   \<and> poll_stackoverflow demo_env ((snd (poll_stackoverflow demo_env start_world))\<lparr>clock := noon + 300\<rparr>)
       = (None, (snd (poll_stackoverflow demo_env start_world))\<lparr>clock := noon + 300\<rparr>)
   \<and> requests_to URL_SO
        (snd (poll_stackoverflow demo_env
               ((snd (poll_stackoverflow demo_env start_world))\<lparr>clock := noon + 300\<rparr>)))
       = [HttpGet URL_SO noon]
   \<and> poll_stackoverflow demo_env (start_world\<lparr>LAST_SO_POLL := noon - 1\<rparr>)
       = (None, start_world\<lparr>LAST_SO_POLL := noon - 1\<rparr>)"
proof -
  let ?w1 = "snd (poll_stackoverflow demo_env start_world)"
  let ?w2 = "?w1\<lparr>clock := noon + 300\<rparr>"
  let ?w3 = "start_world\<lparr>LAST_SO_POLL := noon - 1\<rparr>"
  note T = stackoverflow_rate_gate [of start_world demo_env]
  have o: "\<not> clock start_world - LAST_SO_POLL start_world < SO_MIN_PERIOD"
    by (simp add: start_world_simps SO_MIN_PERIOD_def noon_def)
  from T o have a: "requests_to URL_SO ?w1 = HttpGet URL_SO (clock start_world) # requests_to URL_SO start_world"
    and b: "LAST_SO_POLL ?w1 = clock start_world"
    and c: "\<forall>w2. LAST_SO_POLL w2 = LAST_SO_POLL ?w1 \<and> clock w2 - clock start_world < SO_MIN_PERIOD \<longrightarrow>
                poll_stackoverflow demo_env w2 = (None, w2)"
    by blast+
  have "LAST_SO_POLL ?w2 = LAST_SO_POLL ?w1 \<and> clock ?w2 - clock start_world < SO_MIN_PERIOD"
    by (simp add: start_world_simps SO_MIN_PERIOD_def)
  with c have d: "poll_stackoverflow demo_env ?w2 = (None, ?w2)"
    by blast
  have "clock ?w3 - LAST_SO_POLL ?w3 < SO_MIN_PERIOD"
    by (simp add: start_world_simps SO_MIN_PERIOD_def)
  with stackoverflow_rate_gate [of ?w3 demo_env] have e: "poll_stackoverflow demo_env ?w3 = (None, ?w3)"
    by blast
  have f: "requests_to URL_SO ?w2 = requests_to URL_SO ?w1"
    by (simp add: requests_to_def)
  from a b d e f show ?thesis
    by (simp add: start_world_simps)
qed

subsection \<open>Every collector: the fields and the single \<^verbatim>\<open>try\<close> block\<close>












text \<open>
  The weather block, unlike every other block, has no test for \<^verbatim>\<open>None\<close>: on the payload
  \<^verbatim>\<open>{"current": {"temperature_2m": null, "wind_speed_10m": 7.2}}\<close> the call
  \<^verbatim>\<open>float(None)\<close> raises, a warning is logged and the wind gauge is not set, where the
  other collectors pass over a \<^verbatim>\<open>None\<close> field. This is a defect of
  \<^verbatim>\<open>poll_openmeteo_weather\<close>, and the properties below take no weather payload with a
  \<^verbatim>\<open>None\<close> field.
\<close>

lemma poll_weather_null_field_raises:
  "gauges (snd (poll_openmeteo_weather weather_env_null start_world)) weather_wind_speed_ms = None
   \<and> events (snd (poll_openmeteo_weather weather_env_null start_world))
       = [LogWarn ''openmeteo_weather: parse current failed: '' TypeError, HttpGet URL_WEATHER noon]"
proof (intro conjI)
  let ?ck = "[(''temperature_2m'', JNull), (''wind_speed_10m'', JFloat 7.2)]"
  have s: "gauges start_world g = None" "events start_world = []" "clock start_world = noon" for g
    by (simp_all add: start_world_def)
  have pw: "publish_all (weather_fields weather_env_null ?ck) = (Map.empty, Some TypeError)"
    by (simp add: weather_fields_def plain_field_def)
  have q: "poll_openmeteo_weather weather_env_null start_world
           = (None, finish ''openmeteo_weather: parse current failed: '' (Map.empty, Some TypeError)
                      (after_fetch weather_env_null ''openmeteo_weather'' URL_WEATHER start_world))"
    using poll_weather_dict [of weather_env_null start_world "[(''current'', JObj ?ck)]" ?ck] pw
    by (simp add: fx_env_net)
  show "gauges (snd (poll_openmeteo_weather weather_env_null start_world)) weather_wind_speed_ms = None"
    by (simp add: q gauges_simps after_fetch_simps metric_keys_distinct s)
  show "events (snd (poll_openmeteo_weather weather_env_null start_world))
       = [LogWarn ''openmeteo_weather: parse current failed: '' TypeError, HttpGet URL_WEATHER noon]"
    by (simp add: q finish_def log_warn_def after_fetch_simps s)
qed







subsection \<open>The gate along the loop\<close>



























end
